theory Spec2Isabelle
  imports Main "HOL-Library.Word" "HOL-Library.Signed_Division"
begin

unbundle bit_operations_syntax

section \<open>The C library functions the shell relies on\<close>

text \<open>
  The shell (\<^verbatim>\<open>src/unnamed/part_000\<close>, the v2.0.x command-line shell for the MSP432E401Y)
  parses its input with \<^verbatim>\<open>isspace\<close>, \<^verbatim>\<open>isdigit\<close>, \<^verbatim>\<open>atoi\<close>, \<^verbatim>\<open>strtol\<close>,
  \<^verbatim>\<open>strtoul\<close>, \<^verbatim>\<open>sscanf\<close>, \<^verbatim>\<open>strtok\<close>, \<^verbatim>\<open>strncpy\<close> and \<^verbatim>\<open>strcasecmp\<close>.
  They are modelled on the contents of C strings (a \<open>string\<close> holds the bytes before the
  terminating NUL). The target is a 32-bit ARM: \<^verbatim>\<open>int\<close> and \<^verbatim>\<open>long\<close> are 32 bits wide.
\<close>

type_synonym i32 = "32 word"
type_synonym u32 = "32 word"

definition CRLF :: string where
  "CRLF = [CHR 0x0D, CHR 0x0A]"

definition isspace_c :: "char \<Rightarrow> bool" where
  "isspace_c c \<longleftrightarrow> c \<in> {CHR '' '', CHR 0x09, CHR 0x0A, CHR 0x0B, CHR 0x0C, CHR 0x0D}"

definition isdigit_c :: "char \<Rightarrow> bool" where
  "isdigit_c c \<longleftrightarrow> 48 \<le> (of_char c :: nat) \<and> (of_char c :: nat) \<le> 57"

definition tolower_c :: "char \<Rightarrow> char" where
  "tolower_c c =
     (if 65 \<le> (of_char c :: nat) \<and> (of_char c :: nat) \<le> 90
      then char_of ((of_char c :: nat) + 32) else c)"

text \<open>\<^verbatim>\<open>strcasecmp(a, b) == 0\<close>.\<close>

definition strcasecmp_eq :: "string \<Rightarrow> string \<Rightarrow> bool" where
  "strcasecmp_eq a b \<longleftrightarrow> map tolower_c a = map tolower_c b"

text \<open>\<^verbatim>\<open>strncpy(dst, src, n); dst[n] = 0\<close> leaves the first \<open>n\<close> bytes of the source.\<close>

definition strncpy_c :: "nat \<Rightarrow> string \<Rightarrow> string" where
  "strncpy_c n src = take n src"

text \<open>\<^verbatim>\<open>snprintf(buf, size, ...)\<close> keeps at most \<open>size - 1\<close> bytes of the formatted text.\<close>

definition snprintf_c :: "nat \<Rightarrow> string \<Rightarrow> string" where
  "snprintf_c n s = take (n - 1) s"

text \<open>The value of a digit in bases up to 36, as \<^verbatim>\<open>strtol\<close> reads it.\<close>

definition digit_val :: "char \<Rightarrow> nat option" where
  "digit_val c =
     (let n = (of_char c :: nat) in
      if 48 \<le> n \<and> n \<le> 57 then Some (n - 48)
      else if 97 \<le> n \<and> n \<le> 122 then Some (n - 87)
      else if 65 \<le> n \<and> n \<le> 90 then Some (n - 55)
      else None)"

definition in_base :: "nat \<Rightarrow> char \<Rightarrow> bool" where
  "in_base b c = (case digit_val c of Some d \<Rightarrow> d < b | None \<Rightarrow> False)"

definition digits_value :: "nat \<Rightarrow> string \<Rightarrow> int" where
  "digits_value b ds =
     foldl (\<lambda>a c. a * int b + (case digit_val c of Some d \<Rightarrow> int d | None \<Rightarrow> 0)) 0 ds"

text \<open>
  The subject sequence of \<^verbatim>\<open>strtol\<close>/\<^verbatim>\<open>strtoul\<close>: leading white space, an optional
  sign, an optional \<^verbatim>\<open>0x\<close> prefix (bases 0 and 16, only when a hexadecimal digit follows),
  then the longest run of digits of the base. Base 0 selects 16, 8 or 10 from the prefix.
  The result is the sign, the magnitude and the unread rest; \<open>None\<close> when no digit was
  read (no conversion).
\<close>

definition scan_number :: "nat \<Rightarrow> string \<Rightarrow> (bool \<times> int \<times> string) option" where
  "scan_number base s =
     (let s0 = dropWhile isspace_c s;
          neg = (case s0 of [] \<Rightarrow> False | c # _ \<Rightarrow> c = CHR ''-'');
          s1 = (case s0 of [] \<Rightarrow> [] | c # r \<Rightarrow> if c = CHR ''-'' \<or> c = CHR ''+'' then r else s0);
          hexpfx = (case s1 of z # x # h # _ \<Rightarrow>
                      z = CHR ''0'' \<and> (x = CHR ''x'' \<or> x = CHR ''X'') \<and> in_base 16 h
                    | _ \<Rightarrow> False);
          b = (if base = 0
               then (if hexpfx then 16
                     else if (case s1 of [] \<Rightarrow> False | z # _ \<Rightarrow> z = CHR ''0'') then 8 else 10)
               else base);
          s2 = (if (base = 0 \<or> base = 16) \<and> hexpfx then drop 2 s1 else s1);
          ds = takeWhile (in_base b) s2
      in if ds = [] then None else Some (neg, digits_value b ds, dropWhile (in_base b) s2))"

text \<open>
  \<^verbatim>\<open>strtol(s, &endptr, base)\<close>: the value, clamped to the range of \<^verbatim>\<open>long\<close>, and the text
  at \<^verbatim>\<open>endptr\<close>. With no conversion the value is 0 and \<^verbatim>\<open>endptr\<close> is \<^verbatim>\<open>s\<close> itself.
\<close>

definition strtol :: "string \<Rightarrow> nat \<Rightarrow> int \<times> string" where
  "strtol s base =
     (case scan_number base s of
        None \<Rightarrow> (0, s)
      | Some (neg, m, rest) \<Rightarrow>
          ((if neg then max (- (2 ^ 31)) (- m) else min (2 ^ 31 - 1) m), rest))"

definition strtoul :: "string \<Rightarrow> nat \<Rightarrow> u32 \<times> string" where
  "strtoul s base =
     (case scan_number base s of
        None \<Rightarrow> (0, s)
      | Some (neg, m, rest) \<Rightarrow>
          ((if 2 ^ 32 \<le> m then - 1
            else if neg then - word_of_int m else word_of_int m), rest))"

text \<open>
  \<^verbatim>\<open>atoi(s)\<close> is \<^verbatim>\<open>(int) strtol(s, NULL, 10)\<close>. (C leaves a value out of range undefined;
  the model keeps the clamping of \<^verbatim>\<open>strtol\<close>.)
\<close>

definition atoi :: "string \<Rightarrow> int" where
  "atoi s = fst (strtol s 10)"

text \<open>
  One \<^verbatim>\<open>%Ns\<close> conversion of \<^verbatim>\<open>sscanf\<close>: skip white space, then read at most \<open>w\<close>
  bytes that are not white space. \<open>None\<close> when the input ends first.
\<close>

definition scan_s :: "nat \<Rightarrow> string \<Rightarrow> (string \<times> string) option" where
  "scan_s w s =
     (let s0 = dropWhile isspace_c s;
          tok = take w (takeWhile (\<lambda>c. \<not> isspace_c c) s0)
      in if tok = [] then None else Some (tok, drop (length tok) s0))"

text \<open>
  \<^verbatim>\<open>sscanf(s, "%as %bs %cs", t1, t2, t3)\<close> on zero-initialised arrays: the number of
  conversions (\<open>-1\<close>, \<^verbatim>\<open>EOF\<close>, when the input ends before the first) and the three arrays.
\<close>

definition sscanf3 :: "nat \<Rightarrow> nat \<Rightarrow> nat \<Rightarrow> string \<Rightarrow> int \<times> string \<times> string \<times> string" where
  "sscanf3 a b c s =
     (case scan_s a s of
        None \<Rightarrow> (- 1, [], [], [])
      | Some (t1, r1) \<Rightarrow>
          (case scan_s b r1 of
             None \<Rightarrow> (1, t1, [], [])
           | Some (t2, r2) \<Rightarrow>
               (case scan_s c r2 of
                  None \<Rightarrow> (2, t1, t2, [])
                | Some (t3, r3) \<Rightarrow> (3, t1, t2, t3))))"

text \<open>\<^verbatim>\<open>snprintf\<close> with \<^verbatim>\<open>%d\<close>/\<^verbatim>\<open>%ld\<close>, \<^verbatim>\<open>%2d\<close> and \<^verbatim>\<open>%08X\<close>.\<close>

definition digit_char :: "nat \<Rightarrow> char" where
  "digit_char d = (if d < 10 then char_of (48 + d) else char_of (55 + d))"

function dec_nat :: "int \<Rightarrow> string" where
  "dec_nat n =
     (if n < 10 then [digit_char (nat n)] else dec_nat (n div 10) @ [digit_char (nat (n mod 10))])"
  by pat_completeness auto
termination
  by (relation "measure nat") auto

definition dec_int :: "int \<Rightarrow> string" where
  "dec_int v = (if v < 0 then CHR ''-'' # dec_nat (- v) else dec_nat v)"

definition dec_int_w2 :: "int \<Rightarrow> string" where
  "dec_int_w2 v = (let s = dec_int v in replicate (2 - length s) CHR '' '' @ s)"

definition hex8 :: "u32 \<Rightarrow> string" where
  "hex8 w = map (\<lambda>i. digit_char (unat (drop_bit (4 * i) w AND 0xF))) [7, 6, 5, 4, 3, 2, 1, 0]"

section \<open>The shell's data\<close>

abbreviation NUM_REGISTERS :: nat where "NUM_REGISTERS \<equiv> 32"
abbreviation SCRIPT_LINES :: nat where "SCRIPT_LINES \<equiv> 64"
abbreviation SCRIPT_LINE_SIZE :: nat where "SCRIPT_LINE_SIZE \<equiv> 128"
abbreviation RX_BUF_SZ :: nat where "RX_BUF_SZ \<equiv> 128"
abbreviation MAX_PAYLOAD :: nat where "MAX_PAYLOAD \<equiv> 64"
abbreviation MAX_CB :: nat where "MAX_CB \<equiv> 3"
abbreviation MAX_TICKERS :: nat where "MAX_TICKERS \<equiv> 16"
abbreviation MAX_TICKER_PAYLOAD :: nat where "MAX_TICKER_PAYLOAD \<equiv> 48"

text \<open>\<^verbatim>\<open>struct CbEntry\<close> and \<^verbatim>\<open>struct TickerEntry\<close>.\<close>

record CbEntry =
  cb_active :: bool
  cb_remaining :: i32
  cb_payload :: string

record TickerEntry =
  tk_active :: bool
  delay_ticks :: u32
  period_ticks :: u32
  tk_count :: i32
  tk_payload :: string
  ticks_left :: u32

text \<open>
  The globals of the shell. \<open>uart\<close> is everything written with \<^verbatim>\<open>UART_write\<close> so far;
  \<open>memory\<close> is the raw address space that \<^verbatim>\<open>*(int32_t*)addr\<close> reads; \<open>gpio\<close> holds the
  level of the eight mapped pins; \<open>timerOpen\<close> and \<open>timerRunning\<close> stand for the
  handle \<^verbatim>\<open>gSysTimer\<close> and the state of timer 0; \<open>buildDate\<close> and \<open>buildTime\<close>
  are the compiler's \<^verbatim>\<open>__DATE__\<close> and \<^verbatim>\<open>__TIME__\<close>.
\<close>

record state =
  registers :: "i32 list"
  scriptLines :: "string list"
  cb :: "CbEntry list"
  ticker :: "TickerEntry list"
  errorCount :: "u32 list"
  uart :: string
  memory :: "u32 \<Rightarrow> u32"
  gpio :: "bool list"
  currentPeriodUs :: u32
  timerOpen :: bool
  timerRunning :: bool
  tickFlag :: bool
  tickerFlag :: bool
  sw1Flag :: bool
  sw2Flag :: bool
  buildDate :: string
  buildTime :: string

text \<open>
  What a command can come to: it returns, it steps outside what C defines (an array
  index or a copy beyond its buffer, a null pointer read), or the nesting of dispatcher
  calls exceeds the depth the model was given.
\<close>

datatype undefined_behaviour =
    ScriptIndex int
  | BranchBuffer nat
  | NullArgs
  | TimerBuffer nat

datatype 'a result = Done 'a | Undefined undefined_behaviour | TooDeep

definition putStr :: "string \<Rightarrow> state \<Rightarrow> state" where
  "putStr s st = st\<lparr>uart := uart st @ s\<rparr>"

definition putDec :: "int \<Rightarrow> state \<Rightarrow> state" where
  "putDec v st = putStr (dec_int v) st"

section \<open>The register machine\<close>

definition parse_register :: "string \<Rightarrow> int" where
  "parse_register token =
     (case token of
        [] \<Rightarrow> - 1
      | c # rest \<Rightarrow>
          if c = CHR ''r'' \<or> c = CHR ''R''
          then (let n = atoi rest in if 0 \<le> n \<and> n < int NUM_REGISTERS then n else - 1)
          else - 1)"

definition parse_immediate :: "string \<Rightarrow> i32 option" where
  "parse_immediate token =
     (case token of
        [] \<Rightarrow> None
      | c # rest \<Rightarrow>
          if c \<noteq> CHR ''#'' then None
          else (let (v, endptr) =
                      (case rest of
                         x # digits \<Rightarrow>
                           if x = CHR ''x'' \<or> x = CHR ''X'' then strtol digits 16 else strtol rest 10
                       | [] \<Rightarrow> strtol rest 10)
                in if endptr = [] then Some (word_of_int v) else None))"

definition parse_memory_address :: "state \<Rightarrow> string \<Rightarrow> u32 option" where
  "parse_memory_address st token =
     (case token of
        [] \<Rightarrow> None
      | c # rest \<Rightarrow>
          if c \<noteq> CHR ''@'' then None
          else (case rest of
                  [] \<Rightarrow> Some (fst (strtoul rest 10))
                | x # digits \<Rightarrow>
                    if x = CHR ''r'' \<or> x = CHR ''R''
                    then (let r = parse_register rest
                          in if 0 \<le> r then Some (registers st ! nat r) else None)
                    else if x = CHR ''x'' \<or> x = CHR ''X'' then Some (fst (strtoul digits 16))
                    else Some (fst (strtoul rest 10))))"

text \<open>
  \<^verbatim>\<open>get_operand_value\<close>: a register, else an immediate, else the word at a memory address.
  The address goes straight to the load \<^verbatim>\<open>*(int32_t*)addr\<close>.
\<close>

definition get_operand_value :: "state \<Rightarrow> string \<Rightarrow> i32 option" where
  "get_operand_value st token =
     (let r = parse_register token in
      if 0 \<le> r then Some (registers st ! nat r)
      else (case parse_immediate token of
              Some v \<Rightarrow> Some v
            | None \<Rightarrow>
                (case parse_memory_address st token of
                   Some addr \<Rightarrow> Some (memory st addr)
                 | None \<Rightarrow> None)))"

text \<open>The range predicate of \<^verbatim>\<open>-memr\<close>: flash and SRAM.\<close>

definition addrOK :: "u32 \<Rightarrow> bool" where
  "addrOK a \<longleftrightarrow> a < 0x00080000 \<or> (0x20000000 \<le> a \<and> a < 0x20080000)"

definition print_all_registers :: "state \<Rightarrow> state" where
  "print_all_registers st =
     foldl (\<lambda>s i. putStr (snprintf_c 64
                      (''R'' @ dec_int (int i) @ '' = '' @ dec_int (sint (registers s ! i)) @ CRLF)) s)
       (putStr (''R  Value'' @ [CHR 0x0A] @ ''--------'' @ [CHR 0x0A]) st)
       [0 ..< NUM_REGISTERS]"

text \<open>The echo that ends a successful \<^verbatim>\<open>-reg\<close> operation.\<close>

definition echo_reg :: "int \<Rightarrow> state \<Rightarrow> state" where
  "echo_reg dreg st =
     (if 0 \<le> dreg
      then putStr (snprintf_c 64
             (''R'' @ dec_int dreg @ ''='' @ dec_int (sint (registers st ! nat dreg)) @ CRLF)) st
      else st)"

definition set_reg :: "int \<Rightarrow> i32 \<Rightarrow> state \<Rightarrow> state" where
  "set_reg dreg v st = st\<lparr>registers := (registers st)[nat dreg := v]\<rparr>"

text \<open>
  The branches of \<^verbatim>\<open>cmd_reg\<close> for the one-operand opcodes
  (\<^verbatim>\<open>if (dreg < 0) { putStr("Bad reg"); return; } registers[dreg] = ...\<close>).
\<close>

definition reg_unary :: "(i32 \<Rightarrow> i32) \<Rightarrow> int \<Rightarrow> state \<Rightarrow> state" where
  "reg_unary f dreg st =
     (if dreg < 0 then putStr (''Bad reg'' @ CRLF) st
      else echo_reg dreg (set_reg dreg (f (registers st ! nat dreg)) st))"

text \<open>
  The branches for the two-operand opcodes: the source is resolved first, then the
  destination is checked, then the operation \<open>f\<close> either refuses with a diagnostic
  (\<open>Inl\<close>) or yields the new value of the destination.
\<close>

definition reg_binary :: "(i32 \<Rightarrow> i32 \<Rightarrow> string + i32) \<Rightarrow> int \<Rightarrow> string \<Rightarrow> state \<Rightarrow> state" where
  "reg_binary f dreg tok2 st =
     (case get_operand_value st tok2 of
        None \<Rightarrow> putStr (''Bad src'' @ CRLF) st
      | Some val \<Rightarrow>
          if dreg < 0 then putStr (''Bad dst'' @ CRLF) st
          else (case f (registers st ! nat dreg) val of
                  Inl msg \<Rightarrow> putStr msg st
                | Inr v \<Rightarrow> echo_reg dreg (set_reg dreg v st)))"

text \<open>
  Signed division and remainder of C (truncating towards zero) on 32-bit registers;
  the zero divisor is refused before the division.
\<close>

definition c_div :: "i32 \<Rightarrow> i32 \<Rightarrow> i32" where
  "c_div a b = word_of_int (sint a sdiv sint b)"

definition c_rem :: "i32 \<Rightarrow> i32 \<Rightarrow> i32" where
  "c_rem a b = word_of_int (sint a smod sint b)"

definition cmd_reg :: "string option \<Rightarrow> state \<Rightarrow> state" where
  "cmd_reg args st =
     (case args of
        None \<Rightarrow> print_all_registers st
      | Some a \<Rightarrow>
          if a = [] then print_all_registers st
          else (let (n, op, tok1, tok2) = sscanf3 7 15 15 a in
            if n < 2 then putStr (''Usage: -reg OP DST [SRC]'' @ CRLF) st
            else (let dreg = parse_register tok1 in
              if strcasecmp_eq op ''mov'' then reg_binary (\<lambda>d v. Inr v) dreg tok2 st
              else if strcasecmp_eq op ''xchg'' then
                (let sreg = parse_register tok2 in
                 if dreg < 0 \<or> sreg < 0 then putStr (''Bad reg'' @ CRLF) st
                 else (let tmp = registers st ! nat dreg
                       in echo_reg dreg
                            (set_reg sreg tmp (set_reg dreg (registers st ! nat sreg) st))))
              else if strcasecmp_eq op ''inc'' then reg_unary (\<lambda>d. d + 1) dreg st
              else if strcasecmp_eq op ''dec'' then reg_unary (\<lambda>d. d - 1) dreg st
              else if strcasecmp_eq op ''neg'' then reg_unary (\<lambda>d. - d) dreg st
              else if strcasecmp_eq op ''not'' then reg_unary (\<lambda>d. NOT d) dreg st
              else if strcasecmp_eq op ''add'' then reg_binary (\<lambda>d v. Inr (d + v)) dreg tok2 st
              else if strcasecmp_eq op ''sub'' then reg_binary (\<lambda>d v. Inr (d - v)) dreg tok2 st
              else if strcasecmp_eq op ''mul'' then reg_binary (\<lambda>d v. Inr (d * v)) dreg tok2 st
              else if strcasecmp_eq op ''div'' then
                reg_binary (\<lambda>d v. if v = 0 then Inl (''div0'' @ CRLF) else Inr (c_div d v)) dreg tok2 st
              else if strcasecmp_eq op ''rem'' then
                reg_binary (\<lambda>d v. if v = 0 then Inl (''div0'' @ CRLF) else Inr (c_rem d v)) dreg tok2 st
              else if strcasecmp_eq op ''and'' then reg_binary (\<lambda>d v. Inr (d AND v)) dreg tok2 st
              else if strcasecmp_eq op ''ior'' then reg_binary (\<lambda>d v. Inr (d OR v)) dreg tok2 st
              else if strcasecmp_eq op ''xor'' then reg_binary (\<lambda>d v. Inr (d XOR v)) dreg tok2 st
              else if strcasecmp_eq op ''max'' then
                reg_binary (\<lambda>d v. Inr (if sint d < sint v then v else d)) dreg tok2 st
              else if strcasecmp_eq op ''min'' then
                reg_binary (\<lambda>d v. Inr (if sint d > sint v then v else d)) dreg tok2 st
              else putStr (''Bad op'' @ CRLF) st)))"

section \<open>The conditional branch\<close>

definition get_if_operand :: "state \<Rightarrow> string \<Rightarrow> i32 option" where
  "get_if_operand st tok =
     (case tok of
        [] \<Rightarrow> None
      | c # rest \<Rightarrow>
          if c = CHR ''#''
          then (let (v, endptr) = strtol rest 0
                in if endptr = [] then Some (word_of_int v) else None)
          else if c = CHR ''r'' \<or> c = CHR ''R''
          then (let n = atoi rest
                in if 0 \<le> n \<and> n < 32 then Some (registers st ! nat n) else None)
          else None)"

text \<open>\<^verbatim>\<open>p = strchr(s, c); p++\<close>: the text after the first \<open>c\<close>, if there is one.\<close>

definition after_char :: "char \<Rightarrow> string \<Rightarrow> string option" where
  "after_char c s = (if c \<in> set s then Some (tl (dropWhile (\<lambda>x. x \<noteq> c) s)) else None)"

text \<open>\<^verbatim>\<open>while (len > 0 && isspace(s[len-1])) len--\<close>.\<close>

definition rtrim :: "string \<Rightarrow> string" where
  "rtrim s = rev (dropWhile isspace_c (rev s))"

text \<open>
  The end of \<^verbatim>\<open>cmd_if\<close>, once the two destinations \<open>dt\<close> and \<open>df\<close> are cut out:
  operands, comparison on \<^verbatim>\<open>int32_t\<close>, and the call of \<^verbatim>\<open>handleLine\<close> on the chosen
  destination when it is not empty.
\<close>

definition if_branch :: "(string \<Rightarrow> state \<Rightarrow> state result) \<Rightarrow> string \<Rightarrow> string \<Rightarrow> string
                           \<Rightarrow> string \<Rightarrow> string \<Rightarrow> state \<Rightarrow> state result" where
  "if_branch dispatch tokA cond tokB dt df st =
     (case get_if_operand st tokA of
        None \<Rightarrow> Done (putStr (''Bad A'' @ CRLF) st)
      | Some a \<Rightarrow>
          (case get_if_operand st tokB of
             None \<Rightarrow> Done (putStr (''Bad B'' @ CRLF) st)
           | Some b \<Rightarrow>
               (let c0 = (case cond of [] \<Rightarrow> CHR 0x00 | c # _ \<Rightarrow> c) in
                if c0 \<noteq> CHR ''>'' \<and> c0 \<noteq> CHR ''<'' \<and> c0 \<noteq> CHR ''=''
                then Done (putStr (''COND?'' @ CRLF) st)
                else (let res = (if c0 = CHR ''>'' then sint a > sint b
                                 else if c0 = CHR ''<'' then sint a < sint b
                                 else a = b)
                      in if res then (if dt \<noteq> [] then dispatch dt st else Done st)
                         else (if df \<noteq> [] then dispatch df st else Done st)))))"

text \<open>
  \<^verbatim>\<open>cmd_if\<close>. The dispatcher passes \<^verbatim>\<open>NULL\<close> when the line has no arguments and
  \<^verbatim>\<open>sscanf\<close> then reads through a null pointer. With a colon, the text between
  \<^verbatim>\<open>?\<close> and \<^verbatim>\<open>:\<close> (less its trailing white space) is copied with its own length into
  \<^verbatim>\<open>char destt[64]\<close> and terminated at that length: more than 63 bytes write past
  the array. The other two copies are \<^verbatim>\<open>strncpy(.., 63)\<close>.
\<close>

definition cmd_if :: "(string \<Rightarrow> state \<Rightarrow> state result) \<Rightarrow> string option \<Rightarrow> state \<Rightarrow> state result" where
  "cmd_if dispatch args st =
     (case args of
        None \<Rightarrow> Undefined NullArgs
      | Some q \<Rightarrow>
          (let (n, tokA, cond, tokB) = sscanf3 15 2 15 q in
           if n < 3 then Done (putStr (''Usage: -if A COND B ? DESTT : DESTF'' @ CRLF) st)
           else (case after_char CHR ''?'' q of
                   None \<Rightarrow> Done (putStr (''Bad '' @ [CHR 0x27] @ ''?'' @ [CHR 0x27] @ '' in -if'' @ CRLF) st)
                 | Some qmark \<Rightarrow>
                     (case after_char CHR '':'' qmark of
                        Some colon \<Rightarrow>
                          (let destt = rtrim (takeWhile (\<lambda>x. x \<noteq> CHR '':'') qmark);
                               destf = strncpy_c 63 (dropWhile isspace_c colon)
                           in if 63 < length destt then Undefined (BranchBuffer (length destt))
                              else if_branch dispatch tokA cond tokB
                                     (dropWhile isspace_c destt) (dropWhile isspace_c destf) st)
                      | None \<Rightarrow>
                          if_branch dispatch tokA cond tokB
                            (dropWhile isspace_c (strncpy_c 63 qmark)) [] st))))"

section \<open>The script store\<close>

text \<open>The pointer walks of the argument parsers.\<close>

definition skip_blanks :: "string \<Rightarrow> string" where
  "skip_blanks s = dropWhile (\<lambda>c. c = CHR '' '') s"

definition skip_word :: "string \<Rightarrow> string" where
  "skip_word s = dropWhile (\<lambda>c. \<not> isspace_c c) s"

definition script_text :: "string \<Rightarrow> string" where
  "script_text l = (if l \<noteq> [] then l else ''<empty>'')"

definition print_all_script_lines :: "state \<Rightarrow> state" where
  "print_all_script_lines st =
     foldl (\<lambda>s i. putStr (snprintf_c 80
                      (dec_int_w2 (int i) @ ''   | '' @ script_text (scriptLines s ! i) @ CRLF)) s)
       (putStr (''Line | Script Line'' @ [CHR 0x0A] @ ''------------------------------'' @ [CHR 0x0A]) st)
       [0 ..< SCRIPT_LINES]"

definition print_script_line :: "int \<Rightarrow> state \<Rightarrow> state" where
  "print_script_line line st =
     (if line < 0 \<or> int SCRIPT_LINES \<le> line then putStr (''Bad line'' @ CRLF) st
      else putStr (snprintf_c 80
             (dec_int_w2 line @ '' | '' @ script_text (scriptLines st ! nat line) @ CRLF)) st)"

text \<open>
  The loop of \<^verbatim>\<open>-script N x\<close>:
  \<^verbatim>\<open>for (i = idx; i < SCRIPT_LINES && scriptLines[i][0]; ++i)\<close>, each line copied into a
  local buffer and handed to \<^verbatim>\<open>handleLine\<close>. The table is read again after every line.
\<close>

function script_exec :: "(string \<Rightarrow> state \<Rightarrow> state result) \<Rightarrow> nat \<Rightarrow> state \<Rightarrow> state result" where
  "script_exec dispatch i st =
     (if i < SCRIPT_LINES \<and> scriptLines st ! i \<noteq> []
      then (case dispatch (strncpy_c SCRIPT_LINE_SIZE (scriptLines st ! i)) st of
              Done st' \<Rightarrow> script_exec dispatch (Suc i) st'
            | Undefined u \<Rightarrow> Undefined u
            | TooDeep \<Rightarrow> TooDeep)
      else Done st)"
  by pat_completeness auto
termination
  by (relation "measure (\<lambda>(h, i, st). SCRIPT_LINES - i)") auto

text \<open>
  \<^verbatim>\<open>cmd_script\<close>. The index comes from \<^verbatim>\<open>atoi\<close> and only \<^verbatim>\<open>print_script_line\<close>
  compares it with the table size: \<^verbatim>\<open>w\<close> and \<^verbatim>\<open>c\<close> index \<^verbatim>\<open>scriptLines[idx]\<close> as it
  is, and the loop of \<^verbatim>\<open>x\<close> tests \<^verbatim>\<open>i < SCRIPT_LINES\<close> but not \<^verbatim>\<open>0 <= i\<close>. An access
  outside the table is the result \<open>Undefined (ScriptIndex idx)\<close>.
\<close>

definition cmd_script :: "(string \<Rightarrow> state \<Rightarrow> state result) \<Rightarrow> string option \<Rightarrow> state \<Rightarrow> state result" where
  "cmd_script dispatch args st =
     (case args of
        None \<Rightarrow> Done (print_all_script_lines st)
      | Some a0 \<Rightarrow>
          if a0 = [] then Done (print_all_script_lines st)
          else (let a1 = skip_blanks a0;
                    idx = atoi a1;
                    a2 = skip_blanks (skip_word a1)
                in case a2 of
                     [] \<Rightarrow> Done (print_script_line idx st)
                   | c # _ \<Rightarrow>
                       if c = CHR ''w'' then
                         (let text = skip_blanks (skip_word a2) in
                          if idx < 0 \<or> int SCRIPT_LINES \<le> idx then Undefined (ScriptIndex idx)
                          else Done (putStr (''Script '' @ dec_int idx @ '' loaded.'' @ CRLF)
                                 (st\<lparr>scriptLines := (scriptLines st)
                                        [nat idx := strncpy_c (SCRIPT_LINE_SIZE - 1) text]\<rparr>)))
                       else if c = CHR ''x'' then
                         (if idx < 0 then Undefined (ScriptIndex idx)
                          else script_exec dispatch (nat idx) st)
                       else if c = CHR ''c'' then
                         (if idx < 0 \<or> int SCRIPT_LINES \<le> idx then Undefined (ScriptIndex idx)
                          else Done (putStr (''Script '' @ dec_int idx @ '' cleared.'' @ CRLF)
                                 (st\<lparr>scriptLines := (scriptLines st)[nat idx := []]\<rparr>)))
                       else Done (putStr (''Usage: -script [line] [w|x|c] [payload]'' @ CRLF) st)))"

section \<open>Callbacks and tickers: the commands\<close>

definition cb_names :: "string list" where
  "cb_names = [''timer'', ''SW1'', ''SW2'']"

definition print_all_callbacks :: "state \<Rightarrow> state" where
  "print_all_callbacks st =
     foldl (\<lambda>s i.
        (let e = cb s ! i;
             s1 = putStr '' is '' (putDec (int i) (putStr ''callback '' s));
             s2 = putStr '', count is '' (putStr (cb_names ! i) s1);
             s3 = (if \<not> cb_active e then putStr ''off'' s2 else putDec (sint (cb_remaining e)) s2);
             s4 = (if cb_payload e \<noteq> [] then putStr (cb_payload e) (putStr '' -'' s3) else s3)
         in putStr CRLF s4))
       st [0 ..< MAX_CB]"

definition cmd_callback :: "string option \<Rightarrow> state \<Rightarrow> state" where
  "cmd_callback args st =
     (case args of
        None \<Rightarrow> print_all_callbacks st
      | Some a0 \<Rightarrow>
          if a0 = [] then print_all_callbacks st
          else (let a1 = skip_blanks a0;
                    idx = atoi a1;
                    a2 = skip_word a1
                in if idx < 0 \<or> int MAX_CB \<le> idx then putStr (''idx0-2'' @ CRLF) st
                   else (let a3 = skip_blanks a2;
                             cnt = atoi a3;
                             a4 = skip_blanks (dropWhile (\<lambda>c. c \<noteq> CHR '' '') a3)
                         in if cnt = 0
                            then putStr (''clr'' @ CRLF)
                                   (st\<lparr>cb := (cb st)[nat idx := (cb st ! nat idx)\<lparr>cb_active := False\<rparr>]\<rparr>)
                            else st\<lparr>cb := (cb st)[nat idx :=
                                   \<lparr>cb_active = True, cb_remaining = word_of_int cnt,
                                    cb_payload = strncpy_c (MAX_PAYLOAD - 1) a4\<rparr>]\<rparr>)))"

definition print_all_tickers :: "state \<Rightarrow> state" where
  "print_all_tickers st =
     foldl (\<lambda>s i.
        (let e = ticker s ! i;
             s1 = putStr ''   | '' (putDec (int i) s);
             s2 = putStr (if tk_active e then '' Yes  | '' else ''  No  | '') s1;
             s3 = putStr ''    | '' (putDec (sint (delay_ticks e)) s2);
             s4 = putStr ''     | '' (putDec (sint (period_ticks e)) s3);
             s5 = putStr ''     | '' (putDec (sint (tk_count e)) s4)
         in putStr CRLF (putStr (tk_payload e) s5)))
       (putStr (''Idx | Active | Delay | Period | Count | Payload'' @ CRLF) st)
       [0 ..< MAX_TICKERS]"

definition cmd_ticker :: "string option \<Rightarrow> state \<Rightarrow> state" where
  "cmd_ticker args st =
     (case args of
        None \<Rightarrow> print_all_tickers st
      | Some a0 \<Rightarrow>
          if a0 = [] then print_all_tickers st
          else (let a1 = skip_blanks a0;
                    idx = atoi a1;
                    a2 = dropWhile isdigit_c a1
                in if idx < 0 \<or> int MAX_TICKERS \<le> idx then putStr (''idx0-15'' @ CRLF) st
                   else (let a3 = skip_blanks a2;
                             delay = atoi a3;
                             a4 = skip_blanks (skip_word a3);
                             period = atoi a4;
                             a5 = skip_blanks (skip_word a4);
                             cnt = atoi a5;
                             a6 = skip_blanks (skip_word a5)
                         in if cnt = 0
                            then putStr (''clr'' @ CRLF)
                                   (st\<lparr>ticker := (ticker st)[nat idx := (ticker st ! nat idx)\<lparr>tk_active := False\<rparr>]\<rparr>)
                            else st\<lparr>ticker := (ticker st)[nat idx :=
                                   \<lparr>tk_active = True, delay_ticks = word_of_int delay,
                                    period_ticks = word_of_int period, tk_count = word_of_int cnt,
                                    tk_payload = strncpy_c (MAX_TICKER_PAYLOAD - 1) a6,
                                    ticks_left = word_of_int delay\<rparr>]\<rparr>)))"

section \<open>The small commands\<close>

definition cmd_error :: "state \<Rightarrow> state" where
  "cmd_error st =
     (let s1 = putStr CRLF (putDec (sint (errorCount st ! 0)) (putStr (''Errors:'' @ CRLF @ ''  unknown_cmd : '') st));
          s2 = putStr CRLF (putDec (sint (errorCount s1 ! 1)) (putStr ''  overflow    : '' s1));
          s3 = putStr CRLF (putDec (sint (errorCount s2 ! 2)) (putStr ''  bad_gpio    : '' s2))
      in putStr CRLF (putDec (sint (errorCount s3 ! 3)) (putStr ''  parse_gpio  : '' s3)))"

definition cmd_print :: "string option \<Rightarrow> state \<Rightarrow> state" where
  "cmd_print text st = putStr CRLF (case text of None \<Rightarrow> st | Some t \<Rightarrow> putStr t st)"

definition cmd_memr :: "string option \<Rightarrow> state \<Rightarrow> state" where
  "cmd_memr a st =
     (case a of
        None \<Rightarrow> putStr (''need addr...'' @ CRLF) st
      | Some t \<Rightarrow>
          if t = [] then putStr (''need addr...'' @ CRLF) st
          else (let d = fst (strtoul t 16) in
                if \<not> addrOK d then putStr (''addr our of  range'' @ CRLF) st
                else putStr CRLF (putStr (snprintf_c 11 (''0x'' @ hex8 (memory st d))) st)))"

definition cmd_rem :: "string option \<Rightarrow> state \<Rightarrow> state" where
  "cmd_rem args st = st"

section \<open>Help, build data, pins and timer 0\<close>

definition help_detail :: "string \<Rightarrow> state \<Rightarrow> state" where
  "help_detail t st =
     (if t = ''help'' then
        putStr
          (''-help [cmd]   : list all commands or details for <cmd>'' @ CRLF) st
      else if t = ''about'' then
        putStr
          (''-about        : show author, assignment, version, build date/time'' @ CRLF) st
      else if t = ''print'' then
        putStr
          (''-print text   : echo text exactly as entered'' @ CRLF) st
      else if t = ''memr'' then
        putStr
          (''-memr addrhex : read 32-bit word (flash 0x0-0x7FFFF | SRAM 0x20000000-0x2007FFFF)'' @ CRLF) st
      else if t = ''gpio'' then
        putStr
          (''-gpio idx op [val]'' @ CRLF @
           ''  idx 0-3 : LEDs, 4:PK5, 5:PD4, 6-7: switches '' @ CRLF @
           ''  op  r      : read pin'' @ CRLF @
           ''      t      : toggle (outputs only)'' @ CRLF) st
      else if t = ''error'' then
        putStr
          (''-error       : show error counters since power-up'' @ CRLF) st
      else if t = ''timer'' then
        putStr
          (''-timer         : print current timer 0 period (us)'' @ CRLF @
           ''-timer 0       : turn timer 0 off'' @ CRLF @
           ''-timer val     : set timer 0 period (us)'' @ CRLF @
           ''-timer val m   : set timer 0 period (ms)'' @ CRLF @
           ''-timer val s   : set timer 0 period (s)'' @ CRLF @
           ''Example: -timer 1000 m  (sets 1s period)'' @ CRLF) st
      else if t = ''callback'' then
        putStr
          (''-callback           : show all callback info'' @ CRLF @
           ''-callback idx count -payload : set callback idx (0-2), count (<0=forever), and payload'' @ CRLF @
           ''  idx 0: timer, 1: SW1, 2: SW2'' @ CRLF @
           ''  count: number of triggers, <0 infinite'' @ CRLF @
           ''  payload: e.g. -print hello, -gpio 2 t, etc'' @ CRLF @
           ''-callback clear idx : clear (disable) callback idx'' @ CRLF @
           ''Example: -callback 1 2 -gpio 3 t'' @ CRLF) st
      else if t = ''ticker'' then
        putStr
          (''-ticker idx delay period count -payload'' @ CRLF @
           ''  idx:     0-15 (selects ticker slot)'' @ CRLF @
           ''  delay:   initial delay, in 10ms ticks before first run'' @ CRLF @
           ''  period:  repeat interval, in 10ms ticks'' @ CRLF @
           ''  count:   # of repeats (<0 means infinite)'' @ CRLF @
           ''  payload: shell command (ex: -gpio 2 t)'' @ CRLF @
           ''Example:'' @ CRLF @
           ''  -ticker 3 100 100 5 -gpio 2 t'' @ CRLF @
           ''   (runs ticker #3: after 1s (100x10ms), does 'gpio 2 t' every 1s, 5 times)'' @ CRLF @
           ''Type -ticker (no args) to see all active tickers and their state.'' @ CRLF @
           ''-ticker idx 0 (to clear ticker idx)'' @ CRLF) st
      else if t = ''reg'' then
        putStr
          (''-reg                        : Show all 32 registers and their values'' @ CRLF @
           ''-reg mov dst src            : Move src value (reg/#imm) to dst register'' @ CRLF @
           ''-reg xchg rX rY             : Exchange two registers'' @ CRLF @
           ''-reg inc/dec rX             : Increment/decrement rX'' @ CRLF @
           ''-reg add/sub/mul/div/rem dst src : dst = dst op src'' @ CRLF @
           ''-reg not/neg rX             : Bitwise NOT/arith NEG'' @ CRLF @
           ''-reg and/ior/xor dst src    : Bitwise ops'' @ CRLF @
           ''-reg max/min dst src        : Maximum/minimum'' @ CRLF @
           ''Operands: rX, #imm, #xHEX'' @ CRLF @
           ''Examples:'' @ CRLF @
           ''  -reg mov r1 #123      (set r1=123)'' @ CRLF @
           ''  -reg add r2 r1        (r2 += r1)'' @ CRLF @
           ''  -reg sub r0 #x10      (r0 -= 0x10)'' @ CRLF @
           ''  -reg xchg r1 r2       (swap r1, r2)'' @ CRLF @
           ''  -reg inc r3           (r3++)'' @ CRLF @
           ''  -reg neg r7           (r7 = -r7)'' @ CRLF @
           ''  -reg mov r2 #xFF      (r2=255)'' @ CRLF @
           ''  -reg mul r4 #5        (r4 *= 5)'' @ CRLF) st
      else if t = ''script'' then
        putStr
          (''-script                  : Display all script lines'' @ CRLF @
           ''-script N                : Show script line N'' @ CRLF @
           ''-script N w CMD...       : Write CMD... to script line N'' @ CRLF @
           ''-script N x              : Execute script from line N'' @ CRLF @
           ''-script N c              : Clear line N'' @ CRLF @
           ''Examples:'' @ CRLF @
           ''  -script 10 w -gpio 0 t        (store toggle LED command at line 10)'' @ CRLF @
           ''  -script 10 x                  (execute from line 10)'' @ CRLF @
           ''  -script 10 c                  (clear line 10)'' @ CRLF @
           ''  -script                       (list all script lines)'' @ CRLF) st
      else if t = ''if'' then
        putStr
          (''-if A COND B ? DESTT : DESTF'' @ CRLF @
           ''  A/B: rN (register) or #IMM'' @ CRLF @
           ''  COND: >  =  <'' @ CRLF @
           ''  DESTT: Command if TRUE, DESTF: Command if FALSE'' @ CRLF @
           ''Example:'' @ CRLF @
           ''  -if r1 > #0 ? -print OK : -print BAD'' @ CRLF @
           ''  -if r1 > #0 ? -print OK : -print BAD'' @ CRLF @
           ''  -if r3 < #10 ? : -print hi'' @ CRLF) st
      else if t = ''rem'' then
        putStr
          (''-rem [remark text] : comment line (does nothing)'' @ CRLF) st
      else putStr (''No help for that topic'' @ CRLF) st)"

definition cmd_help :: "string option \<Rightarrow> state \<Rightarrow> state" where
  "cmd_help a st =
     (case a of
        None \<Rightarrow> putStr (''Commands: -help  -about  -print  -memr  -gpio  -timer  -callback  -ticker -reg -script -rem  -error'' @ CRLF @ ''Use -help <cmd> for details.'' @ CRLF) st
      | Some t \<Rightarrow>
          (case t of
             [] \<Rightarrow> putStr (''Commands: -help  -about  -print  -memr  -gpio  -timer  -callback  -ticker -reg -script -rem  -error'' @ CRLF @ ''Use -help <cmd> for details.'' @ CRLF) st
           | c # r \<Rightarrow> help_detail (if c = CHR ''-'' then r else t) st))"

definition cmd_about :: "state \<Rightarrow> state" where
  "cmd_about st =
     putStr (snprintf_c 160
       (''Salim Sadman Bishal'' @ '' | '' @ ''ECE 5380 HWKs'' @ '' | '' @ ''v2.0.5'' @ '' | built ''
          @ buildDate st @ '' '' @ buildTime st @ CRLF)) st"

text \<open>
  \<^verbatim>\<open>cmd_gpio\<close>. The driver calls \<^verbatim>\<open>GPIO_read\<close>, \<^verbatim>\<open>GPIO_write\<close> and \<^verbatim>\<open>GPIO_toggle\<close>
  are taken to read, set and invert the level kept for the pin.
\<close>

definition cmd_gpio :: "string option \<Rightarrow> state \<Rightarrow> state" where
  "cmd_gpio args st =
     (case args of
        None \<Rightarrow> help_detail ''gpio'' st
      | Some a0 \<Rightarrow>
          if a0 = [] then help_detail ''gpio'' st
          else (let a1 = skip_blanks a0;
                    idx = atoi a1;
                    a2 = dropWhile isdigit_c a1
                in if idx < 0 \<or> 7 < idx then putStr (''bad idx'' @ CRLF) st
                   else (let a3 = skip_blanks a2;
                             op = (case a3 of [] \<Rightarrow> CHR 0x00 | c # _ \<Rightarrow> c);
                             a4 = drop 1 a3;
                             pin = nat idx
                         in if op = CHR ''r''
                            then putStr CRLF (putDec (if gpio st ! pin then 1 else 0) st)
                            else if op = CHR ''w''
                            then st\<lparr>gpio := (gpio st)
                                   [pin := (case skip_blanks a4 of [] \<Rightarrow> False | c # _ \<Rightarrow> c = CHR ''1'')]\<rparr>
                            else if op = CHR ''t''
                            then (if 6 \<le> idx then putStr (''ro'' @ CRLF) st
                                  else st\<lparr>gpio := (gpio st)[pin := \<not> gpio st ! pin]\<rparr>)
                            else st)))"

text \<open>
  \<^verbatim>\<open>cmd_timer\<close>. The digits are copied into \<^verbatim>\<open>char tmp[12]\<close> with their own length
  \<open>n\<close> and terminated at \<^verbatim>\<open>tmp[n]\<close>: twelve bytes or more write past the array.
  \<^verbatim>\<open>Timer_open\<close> is taken to succeed.
\<close>

definition cmd_timer :: "string option \<Rightarrow> state \<Rightarrow> state result" where
  "cmd_timer a st =
     (let show_period =
            (if currentPeriodUs st = 0 then putStr (''stopped'' @ CRLF) st
             else putStr ('' us'' @ CRLF) (putDec (sint (currentPeriodUs st)) (putStr ''period '' st)))
      in case a of
           None \<Rightarrow> Done show_period
         | Some t \<Rightarrow>
             if t = [] then Done show_period
             else (let l = last t;
                       unit = (if l = CHR ''s'' \<or> l = CHR ''S'' then CHR ''s''
                               else if l = CHR ''m'' \<or> l = CHR ''M'' then CHR ''m'' else CHR ''u'');
                       n = (if unit = CHR ''u'' then length t else length t - 1)
                   in if 12 \<le> n then Undefined (TimerBuffer n)
                      else (let v = fst (strtol (take n t) 10) in
                        if v < 0 then Done (putStr (''bad'' @ CRLF) st)
                        else (let us = (if unit = CHR ''s'' then (word_of_int v :: u32) * 1000000
                                        else if unit = CHR ''m'' then word_of_int v * 1000
                                        else word_of_int v)
                              in if us = 0
                                 then Done (st\<lparr>timerRunning := (if timerOpen st then False else timerRunning st),
                                              currentPeriodUs := 0\<rparr>)
                                 else Done (st\<lparr>timerOpen := True, timerRunning := True,
                                              currentPeriodUs := us\<rparr>)))))"

section \<open>The dispatcher\<close>

text \<open>
  \<^verbatim>\<open>handleLine\<close> calls itself through \<^verbatim>\<open>cmd_if\<close> and \<^verbatim>\<open>cmd_script\<close>, and a script
  line may start the script it belongs to, so the nesting has no bound in the source.
  The commands above take the dispatcher they re-enter as their first argument;
  \<open>handleLine_body\<close> is one activation of \<^verbatim>\<open>handleLine\<close>, and \<open>handleLine n\<close>
  allows \<open>n\<close> activations on top of each other, answering \<open>TooDeep\<close> beyond that.
\<close>

type_synonym dispatcher = "string \<Rightarrow> state \<Rightarrow> state result"
type_synonym handler = "dispatcher \<Rightarrow> string option \<Rightarrow> state \<Rightarrow> state result"

text \<open>
  \<^verbatim>\<open>cmd = strtok(line, " \t"); args = strtok(NULL, "")\<close>: the first token, and the text
  after the one delimiter that ended it (\<^verbatim>\<open>NULL\<close> when nothing is left).
\<close>

definition is_delim :: "char \<Rightarrow> bool" where
  "is_delim c \<longleftrightarrow> c = CHR '' '' \<or> c = CHR 0x09"

definition strtok_line :: "string \<Rightarrow> (string \<times> string option) option" where
  "strtok_line line =
     (let s = dropWhile is_delim line in
      if s = [] then None
      else Some (takeWhile (\<lambda>c. \<not> is_delim c) s,
                 (case dropWhile (\<lambda>c. \<not> is_delim c) s of
                    [] \<Rightarrow> None
                  | d # r \<Rightarrow> if r = [] then None else Some r)))"

text \<open>The \<^verbatim>\<open>if\<close>/\<^verbatim>\<open>else if\<close> chain of \<^verbatim>\<open>strcmp\<close> in \<^verbatim>\<open>handleLine\<close>, in its order.\<close>

definition command_table :: "(string \<times> handler) list" where
  "command_table =
     [(''help'', \<lambda>h args st. Done (cmd_help args st)),
      (''about'', \<lambda>h args st. Done (cmd_about st)),
      (''gpio'', \<lambda>h args st. Done (cmd_gpio args st)),
      (''timer'', \<lambda>h args st. cmd_timer args st),
      (''callback'', \<lambda>h args st. Done (cmd_callback args st)),
      (''ticker'', \<lambda>h args st. Done (cmd_ticker args st)),
      (''error'', \<lambda>h args st. Done (cmd_error st)),
      (''print'', \<lambda>h args st. Done (cmd_print args st)),
      (''memr'', \<lambda>h args st. Done (cmd_memr args st)),
      (''reg'', \<lambda>h args st. Done (cmd_reg args st)),
      (''script'', cmd_script),
      (''rem'', \<lambda>h args st. Done (cmd_rem args st)),
      (''if'', cmd_if)]"

text \<open>\<^verbatim>\<open>errorCount[ERR_UNKNOWN_CMD]++; putStr(msg)\<close>.\<close>

definition unknown_command :: "string \<Rightarrow> state \<Rightarrow> state" where
  "unknown_command msg st = putStr msg (st\<lparr>errorCount := (errorCount st)[0 := errorCount st ! 0 + 1]\<rparr>)"

definition handleLine_body :: "dispatcher \<Rightarrow> string \<Rightarrow> state \<Rightarrow> state result" where
  "handleLine_body dispatch line st =
     (case strtok_line line of
        None \<Rightarrow> Done st
      | Some (cmd, args) \<Rightarrow>
          (case cmd of
             [] \<Rightarrow> Done st
           | c # name \<Rightarrow>
               if c \<noteq> CHR ''-''
               then Done (unknown_command
                      (''?? unknown (expected leading '' @ [CHR 0x27] @ ''-'' @ [CHR 0x27] @ '')'' @ CRLF) st)
               else (case map_of command_table name of
                       Some cmd_handler \<Rightarrow> cmd_handler dispatch args st
                     | None \<Rightarrow> Done (unknown_command (''?? unknown'' @ CRLF) st))))"

primrec handleLine :: "nat \<Rightarrow> string \<Rightarrow> state \<Rightarrow> state result" where
  "handleLine 0 line st = TooDeep"
| "handleLine (Suc n) line st = handleLine_body (handleLine n) line st"

section \<open>The payload executor and the main loop\<close>

definition execPayload :: "dispatcher \<Rightarrow> string \<Rightarrow> state \<Rightarrow> state result" where
  "execPayload dispatch p st =
     (if p \<noteq> [] \<and> length p < RX_BUF_SZ then dispatch p st else Done st)"

definition and_then :: "'a result \<Rightarrow> ('a \<Rightarrow> 'b result) \<Rightarrow> 'b result" where
  "and_then r f = (case r of Done x \<Rightarrow> f x | Undefined u \<Rightarrow> Undefined u | TooDeep \<Rightarrow> TooDeep)"

text \<open>
  \<^verbatim>\<open>if (cb[i].remaining > 0 && --cb[i].remaining == 0) cb[i].active = false;\<close>,
  on the table as the payload left it.
\<close>

definition cb_count_down :: "nat \<Rightarrow> state \<Rightarrow> state" where
  "cb_count_down i st =
     (let e = cb st ! i in
      if 0 < sint (cb_remaining e)
      then (let e1 = e\<lparr>cb_remaining := cb_remaining e - 1\<rparr>
            in st\<lparr>cb := (cb st)[i := (if cb_remaining e1 = 0 then e1\<lparr>cb_active := False\<rparr> else e1)]\<rparr>)
      else st)"

text \<open>
  \<^verbatim>\<open>if (cb[i].active) { execPayload(cb[i].payload); ... }\<close>: what the main loop does
  for callback \<open>i\<close> once it has seen and cleared the flag of its source.
\<close>

definition service_callback :: "dispatcher \<Rightarrow> nat \<Rightarrow> state \<Rightarrow> state result" where
  "service_callback dispatch i st =
     (if cb_active (cb st ! i)
      then and_then (execPayload dispatch (cb_payload (cb st ! i)) st)
             (\<lambda>s. Done (cb_count_down i s))
      else Done st)"

text \<open>
  \<^verbatim>\<open>if (ticker[i].count > 0 && --ticker[i].count == 0) ticker[i].active = false;
  else ticker[i].ticks_left = ticker[i].period_ticks;\<close>
\<close>

definition ticker_reload :: "nat \<Rightarrow> state \<Rightarrow> state" where
  "ticker_reload i st =
     (let e = ticker st ! i in
      if 0 < sint (tk_count e)
      then (let e1 = e\<lparr>tk_count := tk_count e - 1\<rparr>
            in st\<lparr>ticker := (ticker st)[i := (if tk_count e1 = 0 then e1\<lparr>tk_active := False\<rparr>
                                                 else e1\<lparr>ticks_left := period_ticks e1\<rparr>)]\<rparr>)
      else st\<lparr>ticker := (ticker st)[i := e\<lparr>ticks_left := period_ticks e\<rparr>]\<rparr>)"

text \<open>The body of the loop over the tickers, for ticker \<open>i\<close>.\<close>

definition ticker_step :: "dispatcher \<Rightarrow> nat \<Rightarrow> state \<Rightarrow> state result" where
  "ticker_step dispatch i st =
     (if tk_active (ticker st ! i)
      then (let e = ticker st ! i;
                st1 = (if 0 < ticks_left e
                       then st\<lparr>ticker := (ticker st)[i := e\<lparr>ticks_left := ticks_left e - 1\<rparr>]\<rparr>
                       else st)
            in if ticks_left (ticker st1 ! i) = 0
               then and_then (execPayload dispatch (tk_payload (ticker st1 ! i)) st1)
                      (\<lambda>s. Done (ticker_reload i s))
               else Done st1)
      else Done st)"

primrec for_each :: "(nat \<Rightarrow> state \<Rightarrow> state result) \<Rightarrow> nat list \<Rightarrow> state \<Rightarrow> state result" where
  "for_each body [] st = Done st"
| "for_each body (i # rest) st = and_then (body i st) (for_each body rest)"

text \<open>\<^verbatim>\<open>for (i = 0; i < MAX_TICKERS; ++i) { ... }\<close>: one observed tick of the 10 ms timer.\<close>

definition service_tickers :: "dispatcher \<Rightarrow> state \<Rightarrow> state result" where
  "service_tickers dispatch st = for_each (ticker_step dispatch) [0 ..< MAX_TICKERS] st"

text \<open>The interrupt routines only raise their flag.\<close>

definition timerIsr :: "state \<Rightarrow> state" where
  "timerIsr st = st\<lparr>tickFlag := True\<rparr>"

definition tickerIsr :: "state \<Rightarrow> state" where
  "tickerIsr st = st\<lparr>tickerFlag := True\<rparr>"

definition sw1Isr :: "state \<Rightarrow> state" where
  "sw1Isr st = st\<lparr>sw1Flag := True\<rparr>"

definition sw2Isr :: "state \<Rightarrow> state" where
  "sw2Isr st = st\<lparr>sw2Flag := True\<rparr>"

text \<open>
  The scheduling part of one turn of \<^verbatim>\<open>for(;;)\<close> in \<^verbatim>\<open>mainThread\<close>: the four flags are
  tested and cleared in the order of the source. (The rest of the turn reads one byte
  from the UART and edits the line.)
\<close>

definition poll_flags :: "dispatcher \<Rightarrow> state \<Rightarrow> state result" where
  "poll_flags dispatch st =
     and_then (if tickFlag st then service_callback dispatch 0 (st\<lparr>tickFlag := False\<rparr>) else Done st)
       (\<lambda>s1. and_then (if sw1Flag s1 then service_callback dispatch 1 (s1\<lparr>sw1Flag := False\<rparr>) else Done s1)
          (\<lambda>s2. and_then (if sw2Flag s2 then service_callback dispatch 2 (s2\<lparr>sw2Flag := False\<rparr>) else Done s2)
             (\<lambda>s3. if tickerFlag s3 then service_tickers dispatch (s3\<lparr>tickerFlag := False\<rparr>) else Done s3)))"

text \<open>The state after the static initialisers, for a given address space and build.\<close>

definition init_state :: "(u32 \<Rightarrow> u32) \<Rightarrow> string \<Rightarrow> string \<Rightarrow> state" where
  "init_state m d t =
     \<lparr>registers = replicate NUM_REGISTERS 0,
      scriptLines = replicate SCRIPT_LINES [],
      cb = replicate MAX_CB \<lparr>cb_active = False, cb_remaining = 0, cb_payload = []\<rparr>,
      ticker = replicate MAX_TICKERS
        \<lparr>tk_active = False, delay_ticks = 0, period_ticks = 0, tk_count = 0, tk_payload = [],
         ticks_left = 0\<rparr>,
      errorCount = replicate 4 0,
      uart = [],
      memory = m,
      gpio = replicate 8 False,
      currentPeriodUs = 0,
      timerOpen = False,
      timerRunning = False,
      tickFlag = False,
      tickerFlag = False,
      sw1Flag = False,
      sw2Flag = False,
      buildDate = d,
      buildTime = t\<rparr>"

section \<open>The dispatcher on its buffer\<close>

text \<open>
  \<^verbatim>\<open>handleLine(char *line)\<close> tokenizes in place: \<^verbatim>\<open>strtok\<close> overwrites the delimiter
  that ends the first token with NUL, and \<^verbatim>\<open>cmd\<close> and \<^verbatim>\<open>args\<close> point into the buffer
  it was given. The definitions above pass the line by value; that is sound only if no
  caller hands \<^verbatim>\<open>handleLine\<close> a stored entry. This section models the character
  arrays themselves: an image gives the bytes of every array, a pointer is an array and
  an offset. Arrays are the 64 script lines, the payloads of the callback and ticker
  entries, and the local buffer of each activation of \<^verbatim>\<open>execPayload\<close> or of the
  \<^verbatim>\<open>-script x\<close> loop (\<open>Scratch\<close>, numbered by activation). What \<^verbatim>\<open>handleLine\<close> does
  after the two \<^verbatim>\<open>strtok\<close> calls is a parameter: a function of the command token, the
  argument pointer and the image.
\<close>

abbreviation NUL :: char where "NUL \<equiv> CHR 0x00"

datatype buffer = ScriptLine nat | CbPayload nat | TickerPayload nat | Scratch nat

type_synonym image = "buffer \<Rightarrow> char list"
type_synonym pointer = "buffer \<times> nat"

text \<open>The C string at a pointer: the bytes up to the first NUL.\<close>

definition c_string :: "image \<Rightarrow> pointer \<Rightarrow> string" where
  "c_string m p = takeWhile (\<lambda>c. c \<noteq> NUL) (drop (snd p) (m (fst p)))"

definition poke :: "image \<Rightarrow> pointer \<Rightarrow> char \<Rightarrow> image" where
  "poke m p c = m(fst p := (m (fst p))[snd p := c])"

text \<open>
  \<^verbatim>\<open>strtok(line, " \t")\<close>: the token (\<^verbatim>\<open>NULL\<close> when the line holds only delimiters), the
  pointer \<^verbatim>\<open>strtok\<close> keeps for the next call, and the image after the write.
\<close>

definition strtok_first :: "image \<Rightarrow> pointer \<Rightarrow> pointer option \<times> pointer \<times> image" where
  "strtok_first m p =
     (let s = c_string m p;
          start = snd p + length (takeWhile is_delim s);
          tok = takeWhile (\<lambda>c. \<not> is_delim c) (dropWhile is_delim s);
          stop = start + length tok
      in if tok = [] then (None, (fst p, start), m)
         else if dropWhile (\<lambda>c. \<not> is_delim c) (dropWhile is_delim s) = []
         then (Some (fst p, start), (fst p, stop), m)
         else (Some (fst p, start), (fst p, Suc stop), poke m (fst p, stop) NUL))"

text \<open>\<^verbatim>\<open>strtok(NULL, "")\<close>: what is left, or \<^verbatim>\<open>NULL\<close> when nothing is.\<close>

definition strtok_rest :: "image \<Rightarrow> pointer \<Rightarrow> pointer option" where
  "strtok_rest m save = (if c_string m save = [] then None else Some save)"

definition handleLine_at :: "(string \<Rightarrow> pointer option \<Rightarrow> image \<Rightarrow> image) \<Rightarrow> image \<Rightarrow> pointer \<Rightarrow> image" where
  "handleLine_at after_strtok m line =
     (case strtok_first m line of
        (None, save, m1) \<Rightarrow> m1
      | (Some cmd, save, m1) \<Rightarrow> after_strtok (c_string m1 cmd) (strtok_rest m1 save) m1)"

text \<open>\<^verbatim>\<open>strcpy(buf, s)\<close>: the string and its NUL; the bytes behind them stay.\<close>

definition strcpy_to :: "image \<Rightarrow> buffer \<Rightarrow> string \<Rightarrow> image" where
  "strcpy_to m b s = m(b := s @ NUL # drop (Suc (length s)) (m b))"

text \<open>
  \<^verbatim>\<open>strncpy(buf, s, SCRIPT_LINE_SIZE); buf[SCRIPT_LINE_SIZE] = 0\<close> on
  \<^verbatim>\<open>char buf[SCRIPT_LINE_SIZE+1]\<close>: at most 128 bytes of the string, NUL up to the end.
\<close>

definition strncpy_to :: "image \<Rightarrow> buffer \<Rightarrow> string \<Rightarrow> image" where
  "strncpy_to m b s =
     m(b := take SCRIPT_LINE_SIZE s @ replicate (Suc SCRIPT_LINE_SIZE - length (take SCRIPT_LINE_SIZE s)) NUL)"

text \<open>
  \<^verbatim>\<open>execPayload(p)\<close> in activation \<open>frame\<close>, and one turn of the loop of \<^verbatim>\<open>-script x\<close>
  on the script line at \<open>p\<close>.
\<close>

definition execPayload_at :: "(string \<Rightarrow> pointer option \<Rightarrow> image \<Rightarrow> image) \<Rightarrow> nat \<Rightarrow> image \<Rightarrow> pointer \<Rightarrow> image" where
  "execPayload_at after_strtok frame m p =
     (let s = c_string m p in
      if s \<noteq> [] \<and> length s < RX_BUF_SZ
      then handleLine_at after_strtok (strcpy_to m (Scratch frame) s) (Scratch frame, 0)
      else m)"

definition script_line_at :: "(string \<Rightarrow> pointer option \<Rightarrow> image \<Rightarrow> image) \<Rightarrow> nat \<Rightarrow> image \<Rightarrow> pointer \<Rightarrow> image" where
  "script_line_at after_strtok frame m p =
     handleLine_at after_strtok (strncpy_to m (Scratch frame) (c_string m p)) (Scratch frame, 0)"

text \<open>Two images hold the same stored entries: they agree outside the local buffer.\<close>

definition same_stored :: "nat \<Rightarrow> image \<Rightarrow> image \<Rightarrow> bool" where
  "same_stored frame m m' \<longleftrightarrow> (\<forall>b. b \<noteq> Scratch frame \<longrightarrow> m' b = m b)"

text \<open>A callback entry holding \<^verbatim>\<open>-print x\<close>, for the worked example.\<close>

definition demo_image :: image where
  "demo_image = (\<lambda>b. replicate MAX_PAYLOAD NUL)(CbPayload 0 := ''-print x'' @ replicate 56 NUL)"

section \<open>Notions used to state the properties\<close>




text \<open>
  What \<^verbatim>\<open>-if A COND B\<close> decides, in the words of the specification: each operand is
  a register or an immediate, a malformed one is an error, and the comparison is made
  on signed 32-bit values; then the chosen destination is dispatched when it is not empty.
\<close>

definition if_verdict :: "state \<Rightarrow> string \<Rightarrow> string \<Rightarrow> string \<Rightarrow> string + bool" where
  "if_verdict st tokA cond tokB =
     (case get_if_operand st tokA of
        None \<Rightarrow> Inl ''Bad A''
      | Some a \<Rightarrow>
          (case get_if_operand st tokB of
             None \<Rightarrow> Inl ''Bad B''
           | Some b \<Rightarrow>
               if take 1 cond = ''>'' then Inr (sint b < sint a)
               else if take 1 cond = ''<'' then Inr (sint a < sint b)
               else if take 1 cond = ''='' then Inr (sint a = sint b)
               else Inl ''COND?''))"

definition if_outcome :: "dispatcher \<Rightarrow> state \<Rightarrow> string + bool \<Rightarrow> string \<Rightarrow> string \<Rightarrow> state result" where
  "if_outcome dispatch st verdict destt destf =
     (case verdict of
        Inl msg \<Rightarrow> Done (putStr (msg @ CRLF) st)
      | Inr holds \<Rightarrow>
          (let dest = (if holds then destt else destf)
           in if dest = [] then Done st else dispatch dest st))"




text \<open>
  The fields of the argument text of \<^verbatim>\<open>-callback idx count payload\<close> and of
  \<^verbatim>\<open>-ticker idx delay period count payload\<close>, as the two commands read them.
\<close>

definition callback_fields :: "string \<Rightarrow> int \<times> int \<times> string" where
  "callback_fields a =
     (let a1 = skip_blanks a;
          a3 = skip_blanks (skip_word a1)
      in (atoi a1, atoi a3,
          strncpy_c (MAX_PAYLOAD - 1) (skip_blanks (dropWhile (\<lambda>c. c \<noteq> CHR '' '') a3))))"

definition ticker_fields :: "string \<Rightarrow> int \<times> int \<times> int \<times> int \<times> string" where
  "ticker_fields a =
     (let a1 = skip_blanks a;
          a3 = skip_blanks (dropWhile isdigit_c a1);
          a4 = skip_blanks (skip_word a3);
          a5 = skip_blanks (skip_word a4)
      in (atoi a1, atoi a3, atoi a4, atoi a5,
          strncpy_c (MAX_TICKER_PAYLOAD - 1) (skip_blanks (skip_word a5))))"

text \<open>The same step \<open>n\<close> times: \<open>n\<close> serviced triggers, \<open>n\<close> observed ticks.\<close>

primrec repeat :: "nat \<Rightarrow> (state \<Rightarrow> state result) \<Rightarrow> state \<Rightarrow> state result" where
  "repeat 0 step st = Done st"
| "repeat (Suc n) step st = and_then (step st) (repeat n step)"

text \<open>
  What one observed tick does to a single ticker entry when its payload is plain, and
  whether the tick fires it.
\<close>

definition reload_entry :: "TickerEntry \<Rightarrow> TickerEntry" where
  "reload_entry e =
     (if 0 < sint (tk_count e)
      then (let e1 = e\<lparr>tk_count := tk_count e - 1\<rparr>
            in if tk_count e1 = 0 then e1\<lparr>tk_active := False\<rparr>
               else e1\<lparr>ticks_left := period_ticks e1\<rparr>)
      else e\<lparr>ticks_left := period_ticks e\<rparr>)"

definition fires :: "TickerEntry \<Rightarrow> bool" where
  "fires e \<longleftrightarrow> tk_active e \<and> ticks_left e \<le> 1"

definition tick_entry :: "TickerEntry \<Rightarrow> TickerEntry" where
  "tick_entry e =
     (if \<not> tk_active e then e
      else if fires e then reload_entry (e\<lparr>ticks_left := 0\<rparr>)
      else e\<lparr>ticks_left := ticks_left e - 1\<rparr>)"






text \<open>A concrete machine for the worked examples: all memory reads as zero.\<close>

definition boot :: state where
  "boot = init_state (\<lambda>a. 0) ''Jan  1 2025'' ''00:00:00''"

section \<open>Register machine: unchecked loads and division by zero\<close>

lemma sscanf3_Nil: "sscanf3 a b c [] = (- 1, [], [], [])"
  by (simp add: sscanf3_def scan_s_def)

lemmas number_defs =
  atoi_def strtol_def strtoul_def scan_number_def in_base_def digit_val_def digits_value_def
  isspace_c_def

lemmas reg_defs =
  cmd_reg_def sscanf3_def scan_s_def strcasecmp_eq_def tolower_c_def parse_register_def
  parse_immediate_def parse_memory_address_def get_operand_value_def reg_binary_def
  reg_unary_def

text \<open>
  C2. Claim: a memory operand (\<^verbatim>\<open>@<decimal>\<close>, \<^verbatim>\<open>@x<hex>\<close>, \<^verbatim>\<open>@rN\<close>) has its address
  checked against the permitted ranges before the word is read, and an address outside
  them is refused with no read and no change of a register. The code does otherwise:
  \<^verbatim>\<open>get_operand_value\<close> passes the address to the load without consulting \<^verbatim>\<open>addrOK\<close>
  (only \<^verbatim>\<open>cmd_memr\<close> does). At \<^verbatim>\<open>-reg mov r0 @xF0000000\<close> the address is outside both
  ranges, yet register 0 receives whatever the address space holds there.
\<close>

theorem reg_mov_loads_unchecked_address:
  "\<not> addrOK 0xF0000000
   \<and> get_operand_value st ''@xF0000000'' = Some (memory st 0xF0000000)
   \<and> registers (cmd_reg (Some ''mov r0 @xF0000000'') st) = (registers st)[0 := memory st 0xF0000000]"
  by (simp add: addrOK_def reg_defs number_defs echo_reg_def set_reg_def putStr_def)

text \<open>
  C3. For every destination register and every source operand that resolves to zero,
  \<^verbatim>\<open>-reg div DST SRC\<close> and \<^verbatim>\<open>-reg rem DST SRC\<close> write the diagnostic \<^verbatim>\<open>div0\<close> and
  change nothing else: the destination and every other register keep their value.
  The command is given by what \<^verbatim>\<open>sscanf\<close> reads from the argument text: an opcode
  equal to \<^verbatim>\<open>div\<close> or \<^verbatim>\<open>rem\<close> up to case, a destination that names a register, and a
  source that \<^verbatim>\<open>get_operand_value\<close> resolves to 0.
\<close>

theorem reg_div_rem_by_zero:
  assumes "sscanf3 7 15 15 args = (n, opc, dst, src)"
    and "2 \<le> n"
    and "strcasecmp_eq opc ''div'' \<or> strcasecmp_eq opc ''rem''"
    and "0 \<le> parse_register dst"
    and "get_operand_value st src = Some 0"
  shows "cmd_reg (Some args) st = st\<lparr>uart := uart st @ ''div0'' @ CRLF\<rparr>"
proof -
  have ne: "args \<noteq> []"
    using assms(1,2) by (auto simp: sscanf3_Nil)
  from assms(3) have "map tolower_c opc = ''div'' \<or> map tolower_c opc = ''rem''"
    by (simp add: strcasecmp_eq_def tolower_c_def)
  then show ?thesis
    using assms(1,2,4,5) ne
    by (auto simp: cmd_reg_def strcasecmp_eq_def tolower_c_def reg_binary_def putStr_def)
qed

theorem reg_div_rem_by_zero_witness:
  "sscanf3 7 15 15 ''div r3 #0'' = (3, ''div'', ''r3'', ''#0'')
   \<and> strcasecmp_eq ''div'' ''div''
   \<and> 0 \<le> parse_register ''r3''
   \<and> get_operand_value boot ''#0'' = Some 0
   \<and> cmd_reg (Some ''div r3 #0'') boot = boot\<lparr>uart := uart boot @ ''div0'' @ CRLF\<rparr>
   \<and> registers (cmd_reg (Some ''div r3 #0'') boot) = registers boot"
proof -
  have a: "sscanf3 7 15 15 ''div r3 #0'' = (3, ''div'', ''r3'', ''#0'')"
    by (simp add: sscanf3_def scan_s_def isspace_c_def)
  have b: "strcasecmp_eq ''div'' ''div''"
    by (simp add: strcasecmp_eq_def)
  have c: "0 \<le> parse_register ''r3''"
    by (simp add: parse_register_def number_defs)
  have d: "get_operand_value boot ''#0'' = Some 0"
    by (simp add: get_operand_value_def parse_register_def parse_immediate_def number_defs)
  have e: "cmd_reg (Some ''div r3 #0'') boot = boot\<lparr>uart := uart boot @ ''div0'' @ CRLF\<rparr>"
    using reg_div_rem_by_zero [OF a _ _ c d] b by simp
  show ?thesis
    using a b c d e by simp
qed

section \<open>Small facts about the parsers\<close>

lemmas script_defs = cmd_script_def skip_blanks_def skip_word_def print_script_line_def

section \<open>Script store: the index is not checked\<close>

text \<open>
  C1. Claim: with an index outside \<open>[0, 64)\<close> every operation of \<^verbatim>\<open>-script\<close> (show,
  write, execute, clear) is rejected before the table is touched, with a diagnostic.
  Only the show operation does this (\<^verbatim>\<open>print_script_line\<close> answers \<^verbatim>\<open>Bad line\<close>).
  \<^verbatim>\<open>-script 64 w ...\<close> and \<^verbatim>\<open>-script 64 c\<close> write to \<^verbatim>\<open>scriptLines[64]\<close>, one row past
  the table; \<^verbatim>\<open>-script -1 x\<close> reads \<^verbatim>\<open>scriptLines[-1][0]\<close>; \<^verbatim>\<open>-script 64 x\<close> touches
  nothing but prints nothing either.
\<close>

theorem script_index_unchecked:
  "cmd_script d (Some ''64 w -print x'') st = Undefined (ScriptIndex 64)
   \<and> cmd_script d (Some ''64 c'') st = Undefined (ScriptIndex 64)
   \<and> cmd_script d (Some ''-1 x'') st = Undefined (ScriptIndex (- 1))
   \<and> cmd_script d (Some ''64 x'') st = Done st
   \<and> cmd_script d (Some ''64'') st = Done (putStr (''Bad line'' @ CRLF) st)"
  by (simp add: script_defs number_defs)

lemma strtol_hash_x: "strtol (CHR ''x'' # hs) 0 = (0, CHR ''x'' # hs)" "strtol (CHR ''X'' # hs) 0 = (0, CHR ''X'' # hs)"
  by (simp_all add: number_defs split: list.splits)

lemma strtol_0x:
  assumes "hs \<noteq> []" "\<forall>c\<in>set hs. in_base 16 c"
  shows "strtol (''0x'' @ hs) 0 = (min (2 ^ 31 - 1) (digits_value 16 hs), [])"
proof -
  obtain h t where ht: "hs = h # t" using assms(1) by (cases hs) auto
  have tw: "takeWhile (in_base 16) t = t" using assms(2) ht by (simp add: takeWhile_eq_all_conv)
  have dw: "dropWhile (in_base 16) t = []" using assms(2) ht by simp
  have h16: "in_base 16 h" using assms(2) ht by simp
  show ?thesis
    using h16 by (simp add: ht tw dw strtol_def scan_number_def isspace_c_def)
qed

section \<open>Conditional branch: the two destinations\<close>

lemma dropWhile_until: "c \<notin> set xs \<Longrightarrow> dropWhile (\<lambda>x. x \<noteq> c) (xs @ c # ys) = c # ys"
  by (induction xs) auto

lemma after_char_found: "c \<notin> set xs \<Longrightarrow> after_char c (xs @ c # ys) = Some ys"
  by (simp add: after_char_def dropWhile_until)








lemma sint_eq_iff: "sint a = sint b \<longleftrightarrow> a = (b :: i32)"
  by (auto intro: signed_word_eqI)

lemma if_branch_outcome:
  "if_branch d tokA cond tokB dt df st = if_outcome d st (if_verdict st tokA cond tokB) dt df"
  by (cases cond)
    (auto simp: if_branch_def if_outcome_def if_verdict_def Let_def sint_eq_iff split: option.splits)




lemma strtok_line_split:
  assumes "\<forall>c\<in>set pre. is_delim c" "tok \<noteq> []" "\<forall>c\<in>set tok. \<not> is_delim c"
    and "rest = [] \<or> is_delim (hd rest)"
  shows "strtok_line (pre @ tok @ rest) = Some (tok, if length rest \<le> 1 then None else Some (tl rest))"
proof -
  have 1: "dropWhile is_delim (pre @ tok @ rest) = tok @ rest"
    using assms(1,2,3) by (cases tok) (simp_all add: dropWhile_append2)
  have 2: "takeWhile (\<lambda>c. \<not> is_delim c) (tok @ rest) = tok"
    using assms(3,4) by (cases rest) (simp_all add: takeWhile_append2)
  have 3: "dropWhile (\<lambda>c. \<not> is_delim c) (tok @ rest) = rest"
    using assms(3,4) by (cases rest) (simp_all add: dropWhile_append2)
  show ?thesis
    unfolding strtok_line_def Let_def 1 2 3 using assms(2) by (cases rest) auto
qed

section \<open>The dispatcher\<close>

text \<open>
  C8. Let the line be blanks and tabs, then a first token, then either nothing or a
  blank or tab followed by the remainder. If the token does not begin with \<^verbatim>\<open>-\<close>, or
  the token without its \<^verbatim>\<open>-\<close> is not in the command table, \<^verbatim>\<open>handleLine\<close> adds one to
  the unknown-command counter, writes its diagnostic and does nothing else: the result
  does not depend on any handler. Otherwise the result is that of the one handler of
  the table entry, called with the remainder as it stands (\<^verbatim>\<open>NULL\<close> when there is none).
\<close>

theorem handleLine_dispatch:
  assumes "line = pre @ tok @ rest"
    and "\<forall>c\<in>set pre. is_delim c"
    and "tok \<noteq> []"
    and "\<forall>c\<in>set tok. \<not> is_delim c"
    and "rest = [] \<or> is_delim (hd rest)"
  shows "handleLine (Suc n) line st =
     (if hd tok \<noteq> CHR ''-''
      then Done (st\<lparr>errorCount := (errorCount st)[0 := errorCount st ! 0 + 1],
                    uart := uart st @ ''?? unknown (expected leading '' @ [CHR 0x27] @ ''-'' @ [CHR 0x27] @ '')'' @ CRLF\<rparr>)
      else (case map_of command_table (tl tok) of
              None \<Rightarrow> Done (st\<lparr>errorCount := (errorCount st)[0 := errorCount st ! 0 + 1],
                                uart := uart st @ ''?? unknown'' @ CRLF\<rparr>)
            | Some cmd_handler \<Rightarrow>
                cmd_handler (handleLine n) (if length rest \<le> 1 then None else Some (tl rest)) st))"
proof -
  obtain c name where tok: "tok = c # name" using assms(3) by (cases tok) auto
  show ?thesis
    unfolding handleLine.simps handleLine_body_def assms(1) strtok_line_split [OF assms(2-5)]
    by (simp add: tok unknown_command_def putStr_def split: option.splits)
qed

lemma command_names: "dom (map_of command_table) = {''help'', ''about'', ''gpio'', ''timer'', ''callback'', ''ticker'', ''error'',
   ''print'', ''memr'', ''reg'', ''script'', ''rem'', ''if''}"
  by (auto simp: command_table_def dom_def split: if_splits)

theorem handleLine_dispatch_witness:
  "handleLine (Suc 0) (''  '' @ ''-print'' @ ''  hi'') boot = Done (cmd_print (Some '' hi'') boot)
   \<and> handleLine (Suc 0) ([] @ ''print'' @ '' hi'') boot
       = Done (boot\<lparr>errorCount := (errorCount boot)[0 := errorCount boot ! 0 + 1], uart := uart boot @ ''?? unknown (expected leading '' @ [CHR 0x27] @ ''-'' @ [CHR 0x27] @ '')'' @ CRLF\<rparr>)
   \<and> handleLine (Suc 0) ([] @ ''-Print'' @ []) boot
       = Done (boot\<lparr>errorCount := (errorCount boot)[0 := errorCount boot ! 0 + 1], uart := uart boot @ ''?? unknown'' @ CRLF\<rparr>)"
proof -
  have a: "handleLine (Suc 0) (''  '' @ ''-print'' @ ''  hi'') boot = Done (cmd_print (Some '' hi'') boot)"
    using handleLine_dispatch [of "''  '' @ ''-print'' @ ''  hi''" "''  ''" "''-print''" "''  hi''" 0 boot]
    by (simp add: is_delim_def command_table_def)
  have b: "handleLine (Suc 0) ([] @ ''print'' @ '' hi'') boot
       = Done (boot\<lparr>errorCount := (errorCount boot)[0 := errorCount boot ! 0 + 1], uart := uart boot @ ''?? unknown (expected leading '' @ [CHR 0x27] @ ''-'' @ [CHR 0x27] @ '')'' @ CRLF\<rparr>)"
    using handleLine_dispatch [of "[] @ ''print'' @ '' hi''" "[]" "''print''" "'' hi''" 0 boot]
    by (simp add: is_delim_def)
  have c: "handleLine (Suc 0) ([] @ ''-Print'' @ []) boot
       = Done (boot\<lparr>errorCount := (errorCount boot)[0 := errorCount boot ! 0 + 1], uart := uart boot @ ''?? unknown'' @ CRLF\<rparr>)"
    using handleLine_dispatch [of "[] @ ''-Print'' @ []" "[]" "''-Print''" "[]" 0 boot]
    by (simp add: is_delim_def command_table_def)
  show ?thesis using a b c by blast
qed

section \<open>Conditional branch: worked examples\<close>


lemmas line_defs = handleLine_body_def strtok_line_def is_delim_def command_table_def



section \<open>Conditional branch: immediates\<close>

lemma cmd_if_fields:
  assumes "sscanf3 15 2 15 args = (3, tokA, cond, tokB)"
    and "args = head @ ''?'' @ rest" and "CHR ''?'' \<notin> set head"
    and "CHR '':'' \<in> set rest \<longrightarrow> length (rtrim (takeWhile (\<lambda>x. x \<noteq> CHR '':'') rest)) \<le> 63"
    and "dt = (if CHR '':'' \<in> set rest
               then dropWhile isspace_c (rtrim (takeWhile (\<lambda>x. x \<noteq> CHR '':'') rest))
               else dropWhile isspace_c (take 63 rest))"
    and "df = (if CHR '':'' \<in> set rest
               then dropWhile isspace_c (take 63 (dropWhile isspace_c (tl (dropWhile (\<lambda>x. x \<noteq> CHR '':'') rest))))
               else [])"
  shows "cmd_if d (Some args) st = if_branch d tokA cond tokB dt df st"
proof -
  have q: "after_char CHR ''?'' args = Some rest"
    using assms(2,3) after_char_found [of "CHR ''?''" head rest] by simp
  show ?thesis
  proof (cases "CHR '':'' \<in> set rest")
    case True
    then have c: "after_char CHR '':'' rest = Some (tl (dropWhile (\<lambda>x. x \<noteq> CHR '':'') rest))"
      by (simp add: after_char_def)
    show ?thesis
      using assms(1,4,5,6) True by (simp add: cmd_if_def q c strncpy_c_def)
  next
    case False
    then have c: "after_char CHR '':'' rest = None"
      by (simp add: after_char_def)
    show ?thesis
      using assms(1,5,6) False by (simp add: cmd_if_def q c strncpy_c_def)
  qed
qed

lemma get_if_operand_hash_x:
  "get_if_operand st (CHR ''#'' # CHR ''x'' # hs) = None"
  "get_if_operand st (CHR ''#'' # CHR ''X'' # hs) = None"
  by (simp_all add: get_if_operand_def strtol_hash_x)

lemma get_if_operand_0x:
  assumes "hs \<noteq> []" "\<forall>c\<in>set hs. in_base 16 c"
  shows "get_if_operand st (''#0x'' @ hs) = Some (word_of_int (min (2 ^ 31 - 1) (digits_value 16 hs)))"
  using strtol_0x [OF assms] by (simp add: get_if_operand_def)

text \<open>
  C6 as amended. Take an \<^verbatim>\<open>-if\<close> command from which \<^verbatim>\<open>sscanf\<close> reads its three fields
  (A and B are cut at 15 bytes, the condition at 2), which has its \<^verbatim>\<open>?\<close>, and whose
  text between \<^verbatim>\<open>?\<close> and \<^verbatim>\<open>:\<close> fits the 63 bytes of its buffer. A field A written
  \<^verbatim>\<open>#x...\<close> or \<^verbatim>\<open>#X...\<close> is not accepted: the command answers \<^verbatim>\<open>Bad A\<close> and
  does nothing else; such a field B, after an A that resolves, gives \<^verbatim>\<open>Bad B\<close>. The
  hexadecimal immediate that \<^verbatim>\<open>-if\<close> accepts is the C literal \<^verbatim>\<open>#0xHEX\<close>: it
  resolves to the value of its hexadecimal digits (at most \<^verbatim>\<open>LONG_MAX\<close>), and when the
  other operand resolves too the comparison is evaluated with that value, as signed
  32-bit numbers, and the destination it selects is dispatched when it is not empty
  (\<open>dt\<close> and \<open>df\<close> are the two destinations as the command cuts them out); a condition
  that does not begin with \<^verbatim>\<open>>\<close>, \<^verbatim>\<open><\<close> or \<^verbatim>\<open>=\<close> gives \<^verbatim>\<open>COND?\<close>.
\<close>

theorem if_hex_immediate:
  assumes "sscanf3 15 2 15 args = (3, tokA, cond, tokB)"
    and "args = head @ ''?'' @ rest" and "CHR ''?'' \<notin> set head"
    and "CHR '':'' \<in> set rest \<longrightarrow> length (rtrim (takeWhile (\<lambda>x. x \<noteq> CHR '':'') rest)) \<le> 63"
    and "dt = (if CHR '':'' \<in> set rest
               then dropWhile isspace_c (rtrim (takeWhile (\<lambda>x. x \<noteq> CHR '':'') rest))
               else dropWhile isspace_c (take 63 rest))"
    and "df = (if CHR '':'' \<in> set rest
               then dropWhile isspace_c (take 63 (dropWhile isspace_c (tl (dropWhile (\<lambda>x. x \<noteq> CHR '':'') rest))))
               else [])"
  shows "(tokA = ''#x'' @ hs \<or> tokA = ''#X'' @ hs \<longrightarrow>
            cmd_if d (Some args) st = Done (putStr (''Bad A'' @ CRLF) st))
       \<and> (get_if_operand st tokA \<noteq> None \<and> (tokB = ''#x'' @ hs \<or> tokB = ''#X'' @ hs) \<longrightarrow>
            cmd_if d (Some args) st = Done (putStr (''Bad B'' @ CRLF) st))
       \<and> (hs \<noteq> [] \<and> (\<forall>c\<in>set hs. in_base 16 c)
            \<and> v = word_of_int (min (2 ^ 31 - 1) (digits_value 16 hs)) \<longrightarrow>
            get_if_operand st (''#0x'' @ hs) = Some v
            \<and> (tokA = ''#0x'' @ hs \<and> get_if_operand st tokB = Some b \<longrightarrow>
                 cmd_if d (Some args) st
                   = if_outcome d st
                       (if take 1 cond = ''>'' then Inr (sint b < sint v)
                        else if take 1 cond = ''<'' then Inr (sint v < sint b)
                        else if take 1 cond = ''='' then Inr (sint v = sint b)
                        else Inl ''COND?'') dt df)
            \<and> (tokB = ''#0x'' @ hs \<and> get_if_operand st tokA = Some a \<longrightarrow>
                 cmd_if d (Some args) st
                   = if_outcome d st
                       (if take 1 cond = ''>'' then Inr (sint v < sint a)
                        else if take 1 cond = ''<'' then Inr (sint a < sint v)
                        else if take 1 cond = ''='' then Inr (sint a = sint v)
                        else Inl ''COND?'') dt df))"
proof -
  note c = cmd_if_fields [OF assms, of d st]
  have 1: "cmd_if d (Some args) st = Done (putStr (''Bad A'' @ CRLF) st)"
    if "tokA = ''#x'' @ hs \<or> tokA = ''#X'' @ hs"
    using that by (auto simp: c if_branch_def get_if_operand_hash_x)
  have 2: "cmd_if d (Some args) st = Done (putStr (''Bad B'' @ CRLF) st)"
    if "get_if_operand st tokA \<noteq> None \<and> (tokB = ''#x'' @ hs \<or> tokB = ''#X'' @ hs)"
    using that by (auto simp: c if_branch_def get_if_operand_hash_x)
  have 3: "get_if_operand st (''#0x'' @ hs) = Some v"
    if "hs \<noteq> [] \<and> (\<forall>c\<in>set hs. in_base 16 c) \<and> v = word_of_int (min (2 ^ 31 - 1) (digits_value 16 hs))"
    using that get_if_operand_0x [of hs st] by simp
  have 4: "cmd_if d (Some args) st
                   = if_outcome d st
                       (if take 1 cond = ''>'' then Inr (sint b < sint v)
                        else if take 1 cond = ''<'' then Inr (sint v < sint b)
                        else if take 1 cond = ''='' then Inr (sint v = sint b)
                        else Inl ''COND?'') dt df"
    if "get_if_operand st tokA = Some v" "get_if_operand st tokB = Some b" for v b
    using that by (simp add: c if_branch_outcome if_verdict_def)
  show ?thesis
    using 1 2 3 4 by (intro conjI impI) (simp_all del: get_if_operand_def)
qed

theorem if_hex_immediate_witness:
  "sscanf3 15 2 15 ''#0x10 = #16 ? -print same : -print differ'' = (3, ''#0x10'', ''='', ''#16'')
   \<and> digits_value 16 ''10'' = 16
   \<and> get_if_operand boot ''#0x10'' = Some 16
   \<and> cmd_if (handleLine (Suc 0)) (Some ''#0x10 = #16 ? -print same : -print differ'') boot
       = Done (putStr (''same'' @ CRLF) boot)
   \<and> cmd_if (handleLine (Suc 0)) (Some ''#17 > #0x10 ? -print more : -print less'') boot
       = Done (putStr (''more'' @ CRLF) boot)
   \<and> cmd_if (handleLine (Suc 0)) (Some ''r0 = #x10 ? -print same : -print differ'') boot
       = Done (putStr (''Bad B'' @ CRLF) boot)
   \<and> cmd_if (handleLine (Suc 0)) (Some ''#X10 = #16 ? -print same : -print differ'') boot
       = Done (putStr (''Bad A'' @ CRLF) boot)"
proof -
  let ?h = "handleLine (Suc 0)"
  have scan: "sscanf3 15 2 15 ''#0x10 = #16 ? -print same : -print differ'' = (3, ''#0x10'', ''='', ''#16'')"
    "sscanf3 15 2 15 ''#17 > #0x10 ? -print more : -print less'' = (3, ''#17'', ''>'', ''#0x10'')"
    "sscanf3 15 2 15 ''r0 = #x10 ? -print same : -print differ'' = (3, ''r0'', ''='', ''#x10'')"
    "sscanf3 15 2 15 ''#X10 = #16 ? -print same : -print differ'' = (3, ''#X10'', ''='', ''#16'')"
    by (simp_all add: sscanf3_def scan_s_def isspace_c_def)
  have ops: "get_if_operand boot ''#16'' = Some 16" "get_if_operand boot ''#17'' = Some 17"
    "get_if_operand boot ''r0'' = Some 0"
    by (simp_all add: get_if_operand_def number_defs boot_def init_state_def)
  have dv: "digits_value 16 ''10'' = 16" "\<forall>c\<in>set ''10''. in_base 16 c"
    by (simp_all add: number_defs)
  have dests: "dropWhile isspace_c (rtrim (takeWhile (\<lambda>x. x \<noteq> CHR '':'') '' -print same : -print differ''))
       = ''-print same''"
    "dropWhile isspace_c (rtrim (takeWhile (\<lambda>x. x \<noteq> CHR '':'') '' -print more : -print less''))
       = ''-print more''"
    by (simp_all add: rtrim_def isspace_c_def)
  have a: "get_if_operand boot ''#0x10'' = Some 16
     \<and> cmd_if ?h (Some ''#0x10 = #16 ? -print same : -print differ'') boot
         = Done (putStr (''same'' @ CRLF) boot)"
    using if_hex_immediate [OF scan(1), where head = "''#0x10 = #16 ''"
        and rest = "'' -print same : -print differ''" and hs = "''10''" and v = 16 and b = 16
        and d = ?h and st = boot, OF _ _ _ refl refl]
      ops dv
    by (simp add: dests if_outcome_def line_defs cmd_print_def putStr_def rtrim_def isspace_c_def)
  have b: "cmd_if ?h (Some ''#17 > #0x10 ? -print more : -print less'') boot
         = Done (putStr (''more'' @ CRLF) boot)"
    using if_hex_immediate [OF scan(2), where head = "''#17 > #0x10 ''"
        and rest = "'' -print more : -print less''" and hs = "''10''" and v = 16 and a = 17
        and d = ?h and st = boot, OF _ _ _ refl refl]
      ops dv
    by (simp add: dests if_outcome_def line_defs cmd_print_def putStr_def rtrim_def isspace_c_def)
  have c: "cmd_if ?h (Some ''r0 = #x10 ? -print same : -print differ'') boot
       = Done (putStr (''Bad B'' @ CRLF) boot)"
    using if_hex_immediate [OF scan(3), where head = "''r0 = #x10 ''"
        and rest = "'' -print same : -print differ''" and hs = "''10''"
        and d = ?h and st = boot, OF _ _ _ refl refl]
      ops
    by (simp add: rtrim_def isspace_c_def)
  have d: "cmd_if ?h (Some ''#X10 = #16 ? -print same : -print differ'') boot
       = Done (putStr (''Bad A'' @ CRLF) boot)"
    using if_hex_immediate [OF scan(4), where head = "''#X10 = #16 ''"
        and rest = "'' -print same : -print differ''" and hs = "''10''"
        and d = ?h and st = boot, OF _ _ _ refl refl]
    by (simp add: rtrim_def isspace_c_def)
  show ?thesis using scan(1) dv(1) a b c d by simp
qed

text \<open>
  C6 as stated fails: \<^verbatim>\<open>-if #x10 = #16 ? -print same : -print differ\<close> does not
  resolve \<^verbatim>\<open>#x10\<close> to 16 and compare; it answers \<^verbatim>\<open>Bad A\<close>.
\<close>

theorem if_hash_x_operand_rejected:
  "get_if_operand boot ''#x10'' = None
   \<and> handleLine 2 ''-if #x10 = #16 ? -print same : -print differ'' boot = Done (putStr (''Bad A'' @ CRLF) boot)"
  by (simp add: eval_nat_numeral handleLine_body_def strtok_line_def is_delim_def command_table_def cmd_if_def sscanf3_def scan_s_def
      after_char_def rtrim_def strncpy_c_def if_branch_def get_if_operand_def number_defs)

section \<open>One ticker entry, tick by tick\<close>









lemma tick_entry_payload: "tk_payload (tick_entry e) = tk_payload e"
  by (simp add: tick_entry_def reload_entry_def Let_def)

lemma tick_entry_stays_off: "tk_active (tick_entry e) \<Longrightarrow> tk_active e"
  by (cases "tk_active e") (simp_all add: tick_entry_def)









section \<open>The sweep over the ticker table\<close>






lemma funpow_tick_payload: "tk_payload ((tick_entry ^^ n) e) = tk_payload e"
  by (induction n) (simp_all add: tick_entry_payload)

lemma funpow_tick_stays_off: "tk_active ((tick_entry ^^ n) e) \<Longrightarrow> tk_active e"
  by (induction n) (auto dest: tick_entry_stays_off)



section \<open>Callbacks, trigger by trigger\<close>



section \<open>Arming\<close>













section \<open>Worked examples: payloads and idle sweeps\<close>

lemmas arm_defs = cmd_ticker_def cmd_callback_def skip_blanks_def skip_word_def isdigit_c_def
  strncpy_c_def ticker_fields_def callback_fields_def














section \<open>Worked examples: payloads that are not plain\<close>









section \<open>The repeat count\<close>




section \<open>Ticker schedules\<close>









section \<open>Payloads run on a copy\<close>

lemma c_string_front:
  assumes "NUL \<notin> set xs" "off \<le> length xs"
  shows "takeWhile (\<lambda>c. c \<noteq> NUL) (drop off (xs @ NUL # ys)) = drop off xs"
proof -
  have stop: "NUL \<notin> set zs \<Longrightarrow> takeWhile (\<lambda>c. c \<noteq> NUL) (zs @ NUL # ys) = zs" for zs
    by (induction zs) auto
  have "NUL \<notin> set (drop off xs)" using assms(1) by (auto dest: in_set_dropD)
  then have "takeWhile (\<lambda>c. c \<noteq> NUL) (drop off xs @ NUL # ys) = drop off xs"
    by (rule stop)
  then show ?thesis using assms(2) by simp
qed

text \<open>Tokenizing a buffer that holds the string \<open>str\<close>: what the two \<^verbatim>\<open>strtok\<close> calls return.\<close>

lemma tokenize_buffer:
  assumes bytes: "m b = str @ NUL # tail" and nul: "NUL \<notin> set str"
  shows "case strtok_line str of
           None \<Rightarrow> handleLine_at run m (b, 0) = m
         | Some (cmd, args) \<Rightarrow>
             (\<exists>m' a. handleLine_at run m (b, 0) = run cmd a m'
                \<and> (\<forall>b'. b' \<noteq> b \<longrightarrow> m' b' = m b')
                \<and> map_option (c_string m') a = args
                \<and> (\<forall>q. a = Some q \<longrightarrow> fst q = b))"
proof -
  define lead where "lead = takeWhile is_delim str"
  define body where "body = dropWhile is_delim str"
  define tok where "tok = takeWhile (\<lambda>c. \<not> is_delim c) body"
  define rest where "rest = dropWhile (\<lambda>c. \<not> is_delim c) body"
  have parts: "str = lead @ tok @ rest"
    by (simp add: lead_def body_def tok_def rest_def)
  have cs: "c_string m (b, 0) = str"
    using c_string_front [OF nul, of 0 tail] by (simp add: c_string_def bytes)
  show ?thesis
  proof (cases "body = []")
    case True
    then have "tok = []" by (simp add: tok_def)
    then show ?thesis
      using True by (simp add: strtok_line_def handleLine_at_def strtok_first_def Let_def cs
          flip: body_def tok_def)
  next
    case False
    then have tne: "tok \<noteq> []"
      unfolding tok_def body_def
      by (metis (mono_tags, lifting) dropWhile_eq_Nil_conv hd_dropWhile list.collapse takeWhile.simps(2) list.distinct(1))
    show ?thesis
    proof (cases rest)
      case Nil
      have t2: "str = lead @ tok" using parts Nil by simp
      have "takeWhile (\<lambda>c. c \<noteq> NUL) (drop (length lead) (str @ NUL # tail)) = drop (length lead) str"
        by (rule c_string_front [OF nul]) (simp add: t2)
      then have c: "c_string m (b, length lead) = tok"
        by (simp add: c_string_def bytes t2)
      have "takeWhile (\<lambda>c. c \<noteq> NUL) (drop (length lead + length tok) (str @ NUL # tail))
              = drop (length lead + length tok) str"
        by (rule c_string_front [OF nul]) (simp add: t2)
      then have r: "c_string m (b, length lead + length tok) = []"
        by (simp add: c_string_def bytes t2)
      have run: "handleLine_at run m (b, 0) = run tok None m"
        using tne Nil False
        by (simp add: handleLine_at_def strtok_first_def Let_def cs c r strtok_rest_def
            flip: lead_def body_def tok_def rest_def)
      have sl: "strtok_line str = Some (tok, None)"
        using False Nil by (simp add: strtok_line_def Let_def flip: body_def tok_def rest_def)
      show ?thesis
        unfolding sl using run by auto
    next
      case (Cons d r)
      let ?stop = "length lead + length tok"
      let ?m = "poke m (b, ?stop) NUL"
      have t2: "str = (lead @ tok) @ d # r" using parts Cons by simp
      have upd: "?m b = (lead @ tok) @ NUL # (r @ NUL # tail)"
        by (simp add: poke_def bytes t2 list_update_append)
      have nul2: "NUL \<notin> set (lead @ tok)" "NUL \<notin> set r"
        using nul t2 by auto
      have "takeWhile (\<lambda>c. c \<noteq> NUL) (drop (length lead) ((lead @ tok) @ NUL # (r @ NUL # tail)))
              = drop (length lead) (lead @ tok)"
        by (rule c_string_front [OF nul2(1)]) simp
      then have c: "c_string ?m (b, length lead) = tok"
        by (simp add: c_string_def upd)
      have "takeWhile (\<lambda>c. c \<noteq> NUL) (drop 0 (r @ NUL # tail)) = drop 0 r"
        by (rule c_string_front [OF nul2(2)]) simp
      then have r: "c_string ?m (b, Suc ?stop) = r"
        by (simp add: c_string_def upd)
      have other: "\<forall>b'. b' \<noteq> b \<longrightarrow> ?m b' = m b'"
        by (simp add: poke_def)
      have run: "handleLine_at run m (b, 0)
                   = run tok (if r = [] then None else Some (b, Suc ?stop)) ?m"
        using tne Cons False
        by (simp add: handleLine_at_def strtok_first_def Let_def cs c r strtok_rest_def
            flip: lead_def body_def tok_def rest_def)
      have sl: "strtok_line str = Some (tok, if r = [] then None else Some r)"
        using False Cons by (simp add: strtok_line_def Let_def flip: body_def tok_def rest_def)
      show ?thesis
        unfolding sl using run other r by auto
    qed
  qed
qed


lemma c_string_no_nul: "NUL \<notin> set (c_string m p)"
  by (auto simp: c_string_def dest: set_takeWhileD)

lemma same_stored_string: "same_stored f m m' \<Longrightarrow> fst p \<noteq> Scratch f \<Longrightarrow> c_string m' p = c_string m p"
  by (simp add: same_stored_def c_string_def)

text \<open>Dispatching from a local buffer that holds a copy of the line.\<close>

lemma dispatch_copy:
  assumes copy: "m1 (Scratch f) = line @ NUL # tail" and nul: "NUL \<notin> set line"
    and same: "same_stored f m m1" and stored: "fst p \<noteq> Scratch f"
  shows "case strtok_line line of
           None \<Rightarrow> same_stored f m (handleLine_at run m1 (Scratch f, 0))
         | Some (cmd, args) \<Rightarrow>
             (\<exists>m' a. handleLine_at run m1 (Scratch f, 0) = run cmd a m'
                \<and> same_stored f m m'
                \<and> c_string m' p = c_string m p
                \<and> map_option (c_string m') a = args
                \<and> (\<forall>q. a = Some q \<longrightarrow>
                      fst q = Scratch f
                      \<and> (\<forall>b bytes. b \<noteq> Scratch f \<longrightarrow> c_string (m'(b := bytes)) q = c_string m' q)))"
proof (cases "strtok_line line")
  case None
  then show ?thesis
    using tokenize_buffer [where m = m1 and b = "Scratch f" and str = line and tail = tail and run = run, OF copy nul] same by simp
next
  case (Some ca)
  obtain cmd args where ca: "ca = (cmd, args)" by (cases ca)
  obtain m' a where t: "handleLine_at run m1 (Scratch f, 0) = run cmd a m'"
    "\<forall>b'. b' \<noteq> Scratch f \<longrightarrow> m' b' = m1 b'" "map_option (c_string m') a = args"
    "\<forall>q. a = Some q \<longrightarrow> fst q = Scratch f"
    using tokenize_buffer [where m = m1 and b = "Scratch f" and str = line and tail = tail and run = run, OF copy nul] Some ca by auto
  have ss: "same_stored f m m'"
    using t(2) same by (simp add: same_stored_def)
  have cs: "c_string m' p = c_string m p"
    by (rule same_stored_string [OF ss stored])
  have al: "\<forall>q. a = Some q \<longrightarrow>
             fst q = Scratch f
             \<and> (\<forall>b bytes. b \<noteq> Scratch f \<longrightarrow> c_string (m'(b := bytes)) q = c_string m' q)"
    using t(4) by (auto simp: c_string_def)
  show ?thesis
    unfolding Some ca using t(1,3) ss cs al by auto
qed

text \<open>
  C9. Let \<open>p\<close> point into a stored entry (a callback payload, a ticker payload or a script
  line) that holds the string \<open>line\<close>. \<^verbatim>\<open>execPayload\<close>, when the string is not empty and
  shorter than 128 bytes, and one turn of the loop of \<^verbatim>\<open>-script x\<close> copy the string into
  the local buffer of their activation and tokenize that buffer (\<^verbatim>\<open>-script x\<close> at most 128
  bytes of it). Whatever the dispatched command then does, it is started on an image that
  holds the same stored entries as before, with \<open>line\<close> still at \<open>p\<close>, on the command and
  arguments of \<open>line\<close>; its argument pointer lies in the local buffer, so that the
  arguments read the same after any write to any stored entry. A line of delimiters only
  leaves every stored entry as it was.
\<close>

theorem payload_runs_on_copy:
  assumes "fst p \<noteq> Scratch f" and "line = c_string m p"
  shows "(line \<noteq> [] \<and> length line < RX_BUF_SZ \<longrightarrow>
           (case strtok_line line of
              None \<Rightarrow> same_stored f m (execPayload_at run f m p)
            | Some (cmd, args) \<Rightarrow>
                (\<exists>m' a. execPayload_at run f m p = run cmd a m'
                   \<and> same_stored f m m'
                   \<and> c_string m' p = line
                   \<and> map_option (c_string m') a = args
                   \<and> (\<forall>q. a = Some q \<longrightarrow>
                         fst q = Scratch f
                         \<and> (\<forall>b bytes. b \<noteq> Scratch f \<longrightarrow>
                               c_string (m'(b := bytes)) q = c_string m' q)))))
       \<and> (case strtok_line (take SCRIPT_LINE_SIZE line) of
              None \<Rightarrow> same_stored f m (script_line_at run f m p)
            | Some (cmd, args) \<Rightarrow>
                (\<exists>m' a. script_line_at run f m p = run cmd a m'
                   \<and> same_stored f m m'
                   \<and> c_string m' p = line
                   \<and> map_option (c_string m') a = args
                   \<and> (\<forall>q. a = Some q \<longrightarrow>
                         fst q = Scratch f
                         \<and> (\<forall>b bytes. b \<noteq> Scratch f \<longrightarrow>
                               c_string (m'(b := bytes)) q = c_string m' q))))"
proof (intro conjI impI)
  assume ok: "line \<noteq> [] \<and> length line < RX_BUF_SZ"
  let ?m1 = "strcpy_to m (Scratch f) line"
  have copy: "?m1 (Scratch f) = line @ NUL # drop (Suc (length line)) (m (Scratch f))"
    by (simp add: strcpy_to_def)
  have nul: "NUL \<notin> set line" by (simp add: assms(2) c_string_no_nul)
  have same: "same_stored f m ?m1" by (simp add: same_stored_def strcpy_to_def)
  have run: "execPayload_at run f m p = handleLine_at run ?m1 (Scratch f, 0)"
    using ok by (simp add: execPayload_at_def Let_def flip: assms(2))
  show "case strtok_line line of
              None \<Rightarrow> same_stored f m (execPayload_at run f m p)
            | Some (cmd, args) \<Rightarrow>
                (\<exists>m' a. execPayload_at run f m p = run cmd a m'
                   \<and> same_stored f m m'
                   \<and> c_string m' p = line
                   \<and> map_option (c_string m') a = args
                   \<and> (\<forall>q. a = Some q \<longrightarrow>
                         fst q = Scratch f
                         \<and> (\<forall>b bytes. b \<noteq> Scratch f \<longrightarrow>
                               c_string (m'(b := bytes)) q = c_string m' q)))"
    unfolding run assms(2) by (rule dispatch_copy [OF copy nul same assms(1), unfolded assms(2)])
next
  let ?l = "take SCRIPT_LINE_SIZE line"
  let ?m1 = "strncpy_to m (Scratch f) line"
  have "Suc SCRIPT_LINE_SIZE - length ?l = Suc (SCRIPT_LINE_SIZE - length ?l)" by simp
  then have copy: "?m1 (Scratch f) = ?l @ NUL # replicate (SCRIPT_LINE_SIZE - length ?l) NUL"
    by (simp add: strncpy_to_def del: length_take)
  have nul: "NUL \<notin> set ?l"
    using c_string_no_nul [of m p] by (auto simp: assms(2) dest: in_set_takeD)
  have same: "same_stored f m ?m1" by (simp add: same_stored_def strncpy_to_def)
  have run: "script_line_at run f m p = handleLine_at run ?m1 (Scratch f, 0)"
    by (simp add: script_line_at_def flip: assms(2))
  show "case strtok_line ?l of
              None \<Rightarrow> same_stored f m (script_line_at run f m p)
            | Some (cmd, args) \<Rightarrow>
                (\<exists>m' a. script_line_at run f m p = run cmd a m'
                   \<and> same_stored f m m'
                   \<and> c_string m' p = line
                   \<and> map_option (c_string m') a = args
                   \<and> (\<forall>q. a = Some q \<longrightarrow>
                         fst q = Scratch f
                         \<and> (\<forall>b bytes. b \<noteq> Scratch f \<longrightarrow>
                               c_string (m'(b := bytes)) q = c_string m' q)))"
    unfolding run assms(2) by (rule dispatch_copy [OF copy nul same assms(1), unfolded assms(2)])
qed

lemma demo_line: "c_string demo_image (CbPayload 0, 0) = ''-print x''"
  by (simp add: c_string_def demo_image_def)

text \<open>
  Were \<^verbatim>\<open>handleLine\<close> called on the entry itself, the entry would be cut at its first
  blank: the stored \<^verbatim>\<open>-print x\<close> would read \<^verbatim>\<open>-print\<close> afterwards.
\<close>

lemma dispatch_in_place_cuts_entry:
  "c_string (handleLine_at (\<lambda>cmd args m. m) demo_image (CbPayload 0, 0)) (CbPayload 0, 0) = ''-print''"
  by (simp add: handleLine_at_def strtok_first_def Let_def demo_line is_delim_def poke_def
      c_string_def demo_image_def)

theorem payload_runs_on_copy_witness:
  "c_string demo_image (CbPayload 0, 0) = ''-print x''
   \<and> strtok_line ''-print x'' = Some (''-print'', Some ''x'')
   \<and> c_string (execPayload_at (\<lambda>cmd args m. m) 0 demo_image (CbPayload 0, 0)) (CbPayload 0, 0)
       = ''-print x''
   \<and> c_string (script_line_at (\<lambda>cmd args m. m) 0 demo_image (CbPayload 0, 0)) (CbPayload 0, 0)
       = ''-print x''"
proof -
  have sl: "strtok_line ''-print x'' = Some (''-print'', Some ''x'')"
    by (simp add: strtok_line_def is_delim_def)
  have p: "fst (CbPayload 0, 0 :: nat) \<noteq> Scratch 0" by simp
  note t = payload_runs_on_copy [OF p demo_line [symmetric], of "\<lambda>cmd args m. m"]
  have a: "c_string (execPayload_at (\<lambda>cmd args m. m) 0 demo_image (CbPayload 0, 0)) (CbPayload 0, 0)
       = ''-print x''"
    using t sl by auto
  have b: "c_string (script_line_at (\<lambda>cmd args m. m) 0 demo_image (CbPayload 0, 0)) (CbPayload 0, 0)
       = ''-print x''"
    using t sl by auto
  show ?thesis using demo_line sl a b by simp
qed

end
